theory Spec2Isabelle
  imports Complex_Main
begin

section \<open>Hellas Grid Monitor: the data-fetch-and-derive pipeline\<close>

text \<open>
  A shallow embedding of \<^verbatim>\<open>src/hellas_grid_monitor.py\<close>. Every exception the
  script can raise is a value of \<open>py_error\<close>; a function that may raise returns
  \<open>py_error + 'a\<close>. The two remote services (the ENTSO-E client and the OpenWeatherMap
  endpoint) are arguments of the functions that call them.
\<close>

subsection \<open>Exceptions and numbers\<close>

datatype py_error =
    IndexError
  | KeyError
  | ValueError
  | OverflowError
  | StreamlitAPIException
  | ProviderException string

text \<open>
  A numpy \<open>float64\<close>. Finite values are exact reals: rounding, overflow and signed
  zeros are not modelled, so a finite result stands for the exact quotient or product and
  nothing below is a statement about rounding errors. The three special values are the ones
  a division by zero produces.
\<close>

datatype float64 = Finite real | PosInf | NegInf | NaN

text \<open>\<open>a / b\<close> for two finite numpy floats: a warning, never an exception.\<close>

definition np_div :: "real \<Rightarrow> real \<Rightarrow> float64" where
  "np_div a b =
     (if b \<noteq> 0 then Finite (a / b)
      else if a = 0 then NaN
      else if 0 < a then PosInf
      else NegInf)"

text \<open>\<open>x * c\<close> and \<open>x / c\<close> for a float and a finite constant \<open>c\<close>.\<close>

fun f64_times :: "float64 \<Rightarrow> real \<Rightarrow> float64" where
  "f64_times (Finite a) c = Finite (a * c)"
| "f64_times NaN c = NaN"
| "f64_times PosInf c = (if c = 0 then NaN else if 0 < c then PosInf else NegInf)"
| "f64_times NegInf c = (if c = 0 then NaN else if 0 < c then NegInf else PosInf)"

fun f64_over :: "float64 \<Rightarrow> real \<Rightarrow> float64" where
  "f64_over (Finite a) c = np_div a c"
| "f64_over NaN c = NaN"
| "f64_over PosInf c = (if 0 \<le> c then PosInf else NegInf)"
| "f64_over NegInf c = (if 0 \<le> c then NegInf else PosInf)"

text \<open>
  Python's \<open>int(x)\<close> on a float: truncation towards zero, \<open>ValueError\<close> on
  not-a-number, \<open>OverflowError\<close> on an infinity.
\<close>

fun py_int :: "float64 \<Rightarrow> py_error + int" where
  "py_int (Finite r) = Inr (if 0 \<le> r then \<lfloor>r\<rfloor> else \<lceil>r\<rceil>)"
| "py_int NaN = Inl ValueError"
| "py_int PosInf = Inl OverflowError"
| "py_int NegInf = Inl OverflowError"

subsection \<open>Weather lookup (\<open>get_weather_data\<close>)\<close>

text \<open>
  The parsed JSON answer of the weather provider, reduced to the three paths the function
  reads (\<open>main.temp\<close>, \<open>wind.speed\<close>, \<open>clouds.all\<close>); a missing path is \<open>None\<close>
  and reading it raises \<open>KeyError\<close>.
\<close>

record weather_json =
  main_temp :: "real option"
  wind_speed :: "real option"
  clouds_all :: "real option"

definition subscript :: "real option \<Rightarrow> py_error + real" where
  "subscript v = (case v of None \<Rightarrow> Inl KeyError | Some x \<Rightarrow> Inr x)"

text \<open>The body of the \<open>try\<close> block, after the request has returned.\<close>

definition weather_status :: "string \<Rightarrow> real \<Rightarrow> real \<Rightarrow> string" where
  "weather_status plant_type cloud_cover wind =
     (if plant_type = ''Solar'' then
        (if cloud_cover > 80 then ''Low Solar Output (Cloudy)''
         else if cloud_cover > 50 then ''Moderate Solar Output (Partly Cloudy)''
         else ''High Solar Output (Clear)'')
      else if plant_type = ''Wind'' then
        (if wind < 3 then ''Low Wind Output (Calm)''
         else if wind < 8 then ''Moderate Wind Output''
         else ''High Wind Output (Windy)'')
      else ''-'')"

text \<open>
  The display string; \<open>str\<close> is Python's conversion of a number inside an f-string,
  the degree sign is its two UTF-8 bytes.
\<close>

definition weather_info :: "(real \<Rightarrow> string) \<Rightarrow> real \<Rightarrow> real \<Rightarrow> real \<Rightarrow> string" where
  "weather_info str temperature cloud_cover wind =
     str temperature @ [CHR 0xC2, CHR 0xB0] @ ''C, '' @ str cloud_cover
       @ ''% cloud cover, '' @ str wind @ '' m/s wind speed''"

definition try_weather ::
  "(real \<Rightarrow> string) \<Rightarrow> (py_error + weather_json) \<Rightarrow> string \<Rightarrow> py_error + string \<times> string"
where
  "try_weather str response plant_type =
     (case response of
        Inl e \<Rightarrow> Inl e
      | Inr weather_data \<Rightarrow>
          (case subscript (main_temp weather_data) of
             Inl e \<Rightarrow> Inl e
           | Inr temperature \<Rightarrow>
               (case subscript (wind_speed weather_data) of
                  Inl e \<Rightarrow> Inl e
                | Inr wind \<Rightarrow>
                    (case subscript (clouds_all weather_data) of
                       Inl e \<Rightarrow> Inl e
                     | Inr cloud_cover \<Rightarrow>
                         Inr (weather_info str temperature cloud_cover wind,
                              weather_status plant_type cloud_cover wind)))))"

text \<open>
  \<open>get_weather_data(lat, lon, plant_type)\<close>: \<open>owm\<close> is the request to the weather
  provider followed by \<open>.json()\<close>; any exception gives the pair \<open>("-", "-")\<close>.
  This is the function's body, what a call computes when its result is not taken from the
  cache of its decorator.
\<close>

definition get_weather_data ::
  "(real \<Rightarrow> string) \<Rightarrow> (real \<Rightarrow> real \<Rightarrow> py_error + weather_json)
     \<Rightarrow> real \<Rightarrow> real \<Rightarrow> string \<Rightarrow> string \<times> string"
where
  "get_weather_data str owm lat lon plant_type =
     (case try_weather str (owm lat lon) plant_type of
        Inl e \<Rightarrow> (''-'', ''-'')
      | Inr result \<Rightarrow> result)"

text \<open>
  The specification's \<open>OutputStatus\<close> and its threshold table, written from the
  specification's words; \<open>output_status\<close> reads the status strings of the code as values
  of that enumeration.
\<close>

datatype OutputStatus = LowOutput | ModerateOutput | HighOutput | NotApplicable

definition spec_output_status :: "string \<Rightarrow> real \<Rightarrow> real \<Rightarrow> OutputStatus" where
  "spec_output_status category cloud_cover wind =
     (if category = ''Solar'' then
        (if cloud_cover > 80 then LowOutput
         else if cloud_cover > 50 then ModerateOutput else HighOutput)
      else if category = ''Wind'' then
        (if wind < 3 then LowOutput
         else if wind < 8 then ModerateOutput else HighOutput)
      else NotApplicable)"

definition output_status :: "string \<Rightarrow> OutputStatus option" where
  "output_status s =
     (if s = ''Low Solar Output (Cloudy)'' \<or> s = ''Low Wind Output (Calm)'' then Some LowOutput
      else if s = ''Moderate Solar Output (Partly Cloudy)'' \<or> s = ''Moderate Wind Output''
        then Some ModerateOutput
      else if s = ''High Solar Output (Clear)'' \<or> s = ''High Wind Output (Windy)''
        then Some HighOutput
      else if s = ''-'' then Some NotApplicable
      else None)"

definition ok_json :: "real \<Rightarrow> real \<Rightarrow> real \<Rightarrow> weather_json" where
  "ok_json t w c = \<lparr>main_temp = Some t, wind_speed = Some w, clouds_all = Some c\<rparr>"

subsection \<open>Calendar dates and the Europe/Athens zone\<close>

text \<open>
  A \<open>datetime.date\<close>, as the date inputs of the sidebar return it. An instant is a number
  of seconds since 1970-01-01 00:00:00 UTC.
\<close>

record date =
  year :: int
  month :: int
  day :: int

definition is_leap :: "int \<Rightarrow> bool" where
  "is_leap y = (y mod 4 = 0 \<and> (y mod 100 \<noteq> 0 \<or> y mod 400 = 0))"

definition days_in_month :: "int \<Rightarrow> int \<Rightarrow> int" where
  "days_in_month y m =
     (if m = 2 then (if is_leap y then 29 else 28)
      else if m = 4 \<or> m = 6 \<or> m = 9 \<or> m = 11 then 30 else 31)"

definition valid_date :: "date \<Rightarrow> bool" where
  "valid_date d = (1 \<le> month d \<and> month d \<le> 12 \<and> 1 \<le> day d
                   \<and> day d \<le> days_in_month (year d) (month d))"

text \<open>Comparison of dates, as Python compares them: by year, then month, then day.\<close>

definition date_less :: "date \<Rightarrow> date \<Rightarrow> bool" where
  "date_less a b = (year a < year b \<or> (year a = year b \<and>
                     (month a < month b \<or> (month a = month b \<and> day a < day b))))"

text \<open>\<open>d + timedelta(days=1)\<close> on a date.\<close>

definition next_day :: "date \<Rightarrow> date" where
  "next_day d =
     (if day d < days_in_month (year d) (month d) then d\<lparr>day := day d + 1\<rparr>
      else if month d < 12 then d\<lparr>month := month d + 1, day := 1\<rparr>
      else \<lparr>year = year d + 1, month = 1, day = 1\<rparr>)"

text \<open>The number of days from 1970-01-01 to a date of the Gregorian calendar.\<close>

definition days_from_civil :: "date \<Rightarrow> int" where
  "days_from_civil d =
     (let y = (if month d \<le> 2 then year d - 1 else year d);
          era = y div 400;
          yoe = y - era * 400;
          mp = (if month d > 2 then month d - 3 else month d + 9);
          doy = (153 * mp + 2) div 5 + day d - 1;
          doe = yoe * 365 + yoe div 4 - yoe div 100 + doy
      in era * 146097 + doe - 719468)"

text \<open>Python's \<open>date.weekday()\<close>: Monday is 0, Sunday is 6 (1970-01-01 was a Thursday).\<close>

definition weekday :: "date \<Rightarrow> int" where
  "weekday d = (days_from_civil d + 3) mod 7"

text \<open>The last Sunday of a month of 31 days.\<close>

definition last_sunday :: "int \<Rightarrow> int \<Rightarrow> date" where
  "last_sunday y m =
     \<lparr>year = y, month = m, day = 31 - (weekday \<lparr>year = y, month = m, day = 31\<rparr> + 1) mod 7\<rparr>"

text \<open>
  The zone \<open>Europe/Athens\<close> under the rule in force since 1996: two hours east of UTC,
  three hours between 03:00 wall time of the last Sunday of March and 04:00 wall time of
  the last Sunday of October. \<open>utc_offset d s\<close> is the offset in seconds at wall time
  \<open>s\<close> seconds after midnight of date \<open>d\<close>. (The hour skipped in March and the hour
  repeated in October never contain a midnight or 23:59:59.)
\<close>

definition utc_offset :: "date \<Rightarrow> int \<Rightarrow> int" where
  "utc_offset d s =
     (let wall = days_from_civil d * 86400 + s;
          dst_start = days_from_civil (last_sunday (year d) 3) * 86400 + 3 * 3600;
          dst_end = days_from_civil (last_sunday (year d) 10) * 86400 + 4 * 3600
      in if dst_start \<le> wall \<and> wall < dst_end then 10800 else 7200)"

text \<open>The instant of a wall time in the zone: what \<open>pd.Timestamp(..., tz='Europe/Athens')\<close> holds.\<close>

definition localize :: "date \<Rightarrow> int \<Rightarrow> int" where
  "localize d s = days_from_civil d * 86400 + s - utc_offset d s"

text \<open>
  The first two lines of every fetch function. Adding a \<open>timedelta\<close> to a zone-aware
  pandas timestamp adds that many seconds to the instant.
\<close>

definition start_time :: "date \<Rightarrow> int" where
  "start_time start_date = localize start_date 0"

definition end_time :: "date \<Rightarrow> int" where
  "end_time end_date = localize end_date 0 + 86400 - 1"

subsection \<open>Frames and the grid-data provider\<close>

text \<open>
  A pandas frame indexed by time: the column labels and the rows, each an instant and one
  cell per column, \<open>None\<close> for a missing value.
\<close>

record dataframe =
  columns :: "string list"
  rows :: "(int \<times> real option list) list"

definition empty_frame :: dataframe where
  "empty_frame = \<lparr>columns = [], rows = []\<rparr>"

definition is_empty :: "dataframe \<Rightarrow> bool" where
  "is_empty df = (columns df = [] \<or> rows df = [])"

text \<open>
  \<open>latest_value\<close>, the two-column frame \<open>Source\<close>, \<open>MW\<close> built from one row of
  the generation frame: a list of rows in column order.
\<close>

type_synonym snapshot = "(string \<times> real) list"

text \<open>\<open>dropna()\<close>: the rows without a missing cell, in order.\<close>

fun dropna :: "(int \<times> real option list) list \<Rightarrow> (int \<times> real list) list" where
  "dropna [] = []"
| "dropna ((t, cells) # rest) =
     (case those cells of None \<Rightarrow> dropna rest | Some mw \<Rightarrow> (t, mw) # dropna rest)"

text \<open>\<open>.iloc[-1]\<close>: the last row, \<open>IndexError\<close> when there is none.\<close>

definition iloc_last :: "'a list \<Rightarrow> py_error + 'a" where
  "iloc_last xs = (if xs = [] then Inl IndexError else Inr (last xs))"

text \<open>The five queries of the ENTSO-E client, each from a start to an end instant.\<close>

record entsoe_client =
  query_generation :: "int \<Rightarrow> int \<Rightarrow> py_error + dataframe"
  query_load :: "int \<Rightarrow> int \<Rightarrow> py_error + dataframe"
  query_day_ahead_prices :: "int \<Rightarrow> int \<Rightarrow> py_error + dataframe"
  query_generation_forecast :: "int \<Rightarrow> int \<Rightarrow> py_error + dataframe"
  query_load_forecast :: "int \<Rightarrow> int \<Rightarrow> py_error + dataframe"

subsection \<open>The fetch functions\<close>

text \<open>The function bodies, without their decorators.\<close>

definition get_generation_data_body ::
  "entsoe_client \<Rightarrow> date \<times> date \<Rightarrow> py_error + dataframe \<times> snapshot \<times> int"
where
  "get_generation_data_body client = (\<lambda>(start_date, end_date).
     (case query_generation client (start_time start_date) (end_time end_date) of
        Inl e \<Rightarrow> Inl e
      | Inr dataFrame_generation \<Rightarrow>
          (case iloc_last (dropna (rows dataFrame_generation)) of
             Inl e \<Rightarrow> Inl e
           | Inr (data_time, mw) \<Rightarrow>
               Inr (dataFrame_generation, zip (columns dataFrame_generation) mw, data_time))))"

definition get_consumption_data_body :: "entsoe_client \<Rightarrow> date \<times> date \<Rightarrow> py_error + dataframe" where
  "get_consumption_data_body client = (\<lambda>(start_date, end_date).
     query_load client (start_time start_date) (end_time end_date))"

text \<open>
  The three functions with a \<open>try\<close>: an exception is shown with \<open>st.error\<close> (the second
  component, \<open>None\<close> when nothing was shown) and an empty frame is returned.
\<close>

definition get_price_data :: "entsoe_client \<Rightarrow> date \<times> date \<Rightarrow> dataframe \<times> py_error option" where
  "get_price_data client = (\<lambda>(start_date, end_date).
     (case query_day_ahead_prices client (start_time start_date) (end_time end_date) of
        Inr dataFrame_price \<Rightarrow> (dataFrame_price, None)
      | Inl e \<Rightarrow> (empty_frame, Some e)))"

definition get_generation_forecast_body ::
  "entsoe_client \<Rightarrow> date \<times> date \<Rightarrow> py_error + dataframe \<times> py_error option"
where
  "get_generation_forecast_body client = (\<lambda>(start_date, end_date).
     (case query_generation_forecast client (start_time start_date) (end_time end_date) of
        Inr dataFrame_generation_forecast \<Rightarrow> Inr (dataFrame_generation_forecast, None)
      | Inl e \<Rightarrow> Inr (empty_frame, Some e)))"

definition get_consumption_forecast_body ::
  "entsoe_client \<Rightarrow> date \<times> date \<Rightarrow> py_error + dataframe \<times> py_error option"
where
  "get_consumption_forecast_body client = (\<lambda>(start_date, end_date).
     (case query_load_forecast client (start_time start_date) (end_time end_date) of
        Inr dataFrame_consumption_forecast \<Rightarrow> Inr (dataFrame_consumption_forecast, None)
      | Inl e \<Rightarrow> Inr (empty_frame, Some e)))"

subsection \<open>The cache decorator\<close>

text \<open>
  Modelled from the spec: the memoisation that \<open>@st.cache_data(ttl=...)\<close> puts around a
  function is Streamlit's, not this repository's. It is written from the specification's
  CacheEntry (key, value, fetchedAt, ttl): an entry is created on the first fetch for a key
  and served until \<open>now - fetchedAt > ttl\<close>, then fetched again. The decorated function's
  return value is what is stored; a call that raises stores nothing. The key is the
  function's arguments, each decorated function having a cache of its own; \<open>now\<close> is the
  clock in seconds.
\<close>

record 'v cache_entry =
  cached_value :: 'v
  fetched_at :: nat
  ttl :: nat

type_synonym ('k, 'v) cache = "'k \<Rightarrow> 'v cache_entry option"

definition fetch_and_store ::
  "nat \<Rightarrow> ('k \<Rightarrow> py_error + 'v) \<Rightarrow> nat \<Rightarrow> 'k \<Rightarrow> ('k, 'v) cache \<Rightarrow> (py_error + 'v) \<times> ('k, 'v) cache"
where
  "fetch_and_store t f now key cache =
     (case f key of
        Inl e \<Rightarrow> (Inl e, cache)
      | Inr v \<Rightarrow> (Inr v, cache(key \<mapsto> \<lparr>cached_value = v, fetched_at = now, ttl = t\<rparr>)))"

definition cache_data ::
  "nat \<Rightarrow> ('k \<Rightarrow> py_error + 'v) \<Rightarrow> nat \<Rightarrow> 'k \<Rightarrow> ('k, 'v) cache \<Rightarrow> (py_error + 'v) \<times> ('k, 'v) cache"
where
  "cache_data t f now key cache =
     (case cache key of
        None \<Rightarrow> fetch_and_store t f now key cache
      | Some entry \<Rightarrow>
          if now \<le> fetched_at entry + ttl entry then (Inr (cached_value entry), cache)
          else fetch_and_store t f now key cache)"

text \<open>The decorated functions: four of the five fetches carry \<open>@st.cache_data(ttl=900)\<close>.\<close>

definition get_generation_data ::
  "entsoe_client \<Rightarrow> nat \<Rightarrow> date \<times> date \<Rightarrow> (date \<times> date, dataframe \<times> snapshot \<times> int) cache
     \<Rightarrow> (py_error + dataframe \<times> snapshot \<times> int) \<times> (date \<times> date, dataframe \<times> snapshot \<times> int) cache"
where
  "get_generation_data client = cache_data 900 (get_generation_data_body client)"

definition get_consumption_data ::
  "entsoe_client \<Rightarrow> nat \<Rightarrow> date \<times> date \<Rightarrow> (date \<times> date, dataframe) cache
     \<Rightarrow> (py_error + dataframe) \<times> (date \<times> date, dataframe) cache"
where
  "get_consumption_data client = cache_data 900 (get_consumption_data_body client)"

definition get_generation_forecast ::
  "entsoe_client \<Rightarrow> nat \<Rightarrow> date \<times> date \<Rightarrow> (date \<times> date, dataframe \<times> py_error option) cache
     \<Rightarrow> (py_error + dataframe \<times> py_error option) \<times> (date \<times> date, dataframe \<times> py_error option) cache"
where
  "get_generation_forecast client = cache_data 900 (get_generation_forecast_body client)"

definition get_consumption_forecast ::
  "entsoe_client \<Rightarrow> nat \<Rightarrow> date \<times> date \<Rightarrow> (date \<times> date, dataframe \<times> py_error option) cache
     \<Rightarrow> (py_error + dataframe \<times> py_error option) \<times> (date \<times> date, dataframe \<times> py_error option) cache"
where
  "get_consumption_forecast client = cache_data 900 (get_consumption_forecast_body client)"

subsection \<open>Derived metrics (script lines 210 to 224)\<close>

definition total_generation_MW :: "snapshot \<Rightarrow> real" where
  "total_generation_MW latest_value = sum_list (map snd latest_value)"

definition renewable_generation :: "string list" where
  "renewable_generation = [''Wind Onshore'', ''Solar'', ''Hydro Water Reservoir'', ''Biomass'']"

definition renewable_generation_MW :: "snapshot \<Rightarrow> real" where
  "renewable_generation_MW latest_value =
     sum_list (map snd (filter (\<lambda>row. fst row \<in> set renewable_generation) latest_value))"

definition renewable_percentage :: "snapshot \<Rightarrow> float64" where
  "renewable_percentage latest_value =
     f64_times (np_div (renewable_generation_MW latest_value) (total_generation_MW latest_value)) 100"

definition lignite_generation_MW :: "snapshot \<Rightarrow> real" where
  "lignite_generation_MW latest_value =
     sum_list (map snd (filter (\<lambda>row. fst row = ''Fossil Brown coal/Lignite'') latest_value))"

definition lignite_percentage :: "snapshot \<Rightarrow> float64" where
  "lignite_percentage latest_value =
     f64_times (np_div (lignite_generation_MW latest_value) (total_generation_MW latest_value)) 100"

definition natural_gas_generation_MW :: "snapshot \<Rightarrow> real" where
  "natural_gas_generation_MW latest_value =
     sum_list (map snd (filter (\<lambda>row. fst row = ''Fossil Gas'') latest_value))"

definition natural_gas_percentage :: "snapshot \<Rightarrow> float64" where
  "natural_gas_percentage latest_value =
     f64_times (np_div (natural_gas_generation_MW latest_value) (total_generation_MW latest_value)) 100"

definition co2_emissions :: "snapshot \<Rightarrow> float64" where
  "co2_emissions latest_value =
     np_div (lignite_generation_MW latest_value * 1000 + natural_gas_generation_MW latest_value * 400)
       (total_generation_MW latest_value)"

definition co2_emissions_percentage :: "snapshot \<Rightarrow> float64" where
  "co2_emissions_percentage latest_value = f64_times (f64_over (co2_emissions latest_value) 1000) 100"

subsection \<open>The sidebar overview (script lines 229 to 238)\<close>

text \<open>
  What the sidebar shows, in order. A \<open>Markdown\<close> element carries its label and the value
  its f-string formats (the fixed \<open>.1f\<close> layout and the emoji of the label are left out);
  a \<open>Progress\<close> element carries the integer given to \<open>st.sidebar.progress\<close>, which
  raises for an integer outside 0 to 100.
\<close>

datatype element = Markdown string float64 | Progress int

definition progress :: "float64 \<Rightarrow> py_error + element" where
  "progress x =
     (case py_int x of
        Inl e \<Rightarrow> Inl e
      | Inr v \<Rightarrow> if 0 \<le> v \<and> v \<le> 100 then Inr (Progress v) else Inl StreamlitAPIException)"

text \<open>Statements run in order; the first exception stops the run, what was shown stays.\<close>

fun render :: "(py_error + element) list \<Rightarrow> element list \<times> py_error option" where
  "render [] = ([], None)"
| "render (Inl e # rest) = ([], Some e)"
| "render (Inr x # rest) = (x # fst (render rest), snd (render rest))"

definition quick_live_mix :: "snapshot \<Rightarrow> element list \<times> py_error option" where
  "quick_live_mix latest_value =
     render
       [Inr (Markdown ''Total Generation'' (Finite (total_generation_MW latest_value))),
        Inr (Markdown ''Renewable Energy'' (renewable_percentage latest_value)),
        progress (renewable_percentage latest_value),
        Inr (Markdown ''CO2 Emissions'' (co2_emissions latest_value)),
        progress (co2_emissions_percentage latest_value),
        Inr (Markdown ''Lignite'' (lignite_percentage latest_value)),
        progress (lignite_percentage latest_value),
        Inr (Markdown ''Natural Gas'' (natural_gas_percentage latest_value)),
        progress (natural_gas_percentage latest_value)]"

text \<open>
  The formulas of the specification's Metric Derivation Engine, written from its words over
  the same rows: a sum of MW over a set of source labels, divided by the total.
\<close>

definition spec_renewable_set :: "string set" where
  "spec_renewable_set = {''Wind Onshore'', ''Solar'', ''Hydro Water Reservoir'', ''Biomass''}"

definition spec_MW :: "string set \<Rightarrow> snapshot \<Rightarrow> real" where
  "spec_MW S snap = (\<Sum>row\<leftarrow>snap. if fst row \<in> S then snd row else 0)"

definition spec_totalMW :: "snapshot \<Rightarrow> real" where
  "spec_totalMW snap = (\<Sum>row\<leftarrow>snap. snd row)"

definition spec_renewableShare :: "snapshot \<Rightarrow> real" where
  "spec_renewableShare snap = spec_MW spec_renewable_set snap / spec_totalMW snap * 100"

definition spec_co2IntensityKgPerMWh :: "snapshot \<Rightarrow> real" where
  "spec_co2IntensityKgPerMWh snap =
     (spec_MW {''Fossil Brown coal/Lignite''} snap * 1000 + spec_MW {''Fossil Gas''} snap * 400)
       / spec_totalMW snap"

definition scenario :: snapshot where
  "scenario = [(''Wind Onshore'', 500), (''Solar'', 300),
               (''Fossil Brown coal/Lignite'', 100), (''Fossil Gas'', 100)]"

definition all_zero :: snapshot where
  "all_zero = [(''Wind Onshore'', 0), (''Solar'', 0),
               (''Fossil Brown coal/Lignite'', 0), (''Fossil Gas'', 0)]"

subsection \<open>The script from the fetches to the sidebar (lines 169 to 238)\<close>

record caches =
  generation_cache :: "(date \<times> date, dataframe \<times> snapshot \<times> int) cache"
  consumption_cache :: "(date \<times> date, dataframe) cache"
  generation_forecast_cache :: "(date \<times> date, dataframe \<times> py_error option) cache"
  consumption_forecast_cache :: "(date \<times> date, dataframe \<times> py_error option) cache"

definition empty_caches :: caches where
  "empty_caches = \<lparr>generation_cache = Map.empty, consumption_cache = Map.empty,
     generation_forecast_cache = Map.empty, consumption_forecast_cache = Map.empty\<rparr>"

text \<open>
  What a completed run has put on the page: the data timestamp, the sidebar overview, the
  frames the tabs draw, the latest price (\<open>None\<close> is shown as "N/A") and the exceptions
  shown by \<open>st.error\<close>.
\<close>

record page =
  data_timestamp :: int
  overview :: "element list"
  generation :: dataframe
  consumption :: dataframe
  price :: dataframe
  latest_price :: "(int \<times> real option list) option"
  generation_forecast :: dataframe
  consumption_forecast :: dataframe
  error_banners :: "py_error list"

definition banners :: "py_error option list \<Rightarrow> py_error list" where
  "banners bs = concat (map (\<lambda>b. case b of None \<Rightarrow> [] | Some e \<Rightarrow> [e]) bs)"

text \<open>
  The statements run in order and an exception that escapes a call ends the run. \<open>today\<close>
  is \<open>datetime.now().date()\<close>, \<open>now\<close> the clock of the cache.
\<close>

definition script ::
  "entsoe_client \<Rightarrow> nat \<Rightarrow> date \<Rightarrow> date \<Rightarrow> date \<Rightarrow> caches \<Rightarrow> (py_error + page) \<times> caches"
where
  "script client now start_date end_date today cs =
     (case get_generation_data client now (start_date, end_date) (generation_cache cs) of
        (Inl e, c1) \<Rightarrow> (Inl e, cs\<lparr>generation_cache := c1\<rparr>)
      | (Inr (dataFrame_generation, latest_value, data_time), c1) \<Rightarrow>
     (case get_consumption_data client now (start_date, end_date) (consumption_cache cs) of
        (Inl e, c2) \<Rightarrow> (Inl e, cs\<lparr>generation_cache := c1, consumption_cache := c2\<rparr>)
      | (Inr dataFrame_consumption, c2) \<Rightarrow>
     (case get_price_data client (start_date, end_date) of
        (dataFrame_price, b1) \<Rightarrow>
     (case get_generation_forecast client now (today, next_day today)
             (generation_forecast_cache cs) of
        (Inl e, c3) \<Rightarrow>
          (Inl e, cs\<lparr>generation_cache := c1, consumption_cache := c2,
                      generation_forecast_cache := c3\<rparr>)
      | (Inr (dataFrame_generation_forecast, b2), c3) \<Rightarrow>
     (case get_consumption_forecast client now (today, next_day today)
             (consumption_forecast_cache cs) of
        (Inl e, c4) \<Rightarrow>
          (Inl e, \<lparr>generation_cache = c1, consumption_cache = c2,
                   generation_forecast_cache = c3, consumption_forecast_cache = c4\<rparr>)
      | (Inr (dataFrame_consumption_forecast, b3), c4) \<Rightarrow>
     (case quick_live_mix latest_value of
        (shown, Some e) \<Rightarrow>
          (Inl e, \<lparr>generation_cache = c1, consumption_cache = c2,
                   generation_forecast_cache = c3, consumption_forecast_cache = c4\<rparr>)
      | (shown, None) \<Rightarrow>
          (Inr \<lparr>data_timestamp = data_time, overview = shown,
                generation = dataFrame_generation, consumption = dataFrame_consumption,
                price = dataFrame_price,
                latest_price = (if \<not> is_empty dataFrame_price
                                then Some (last (rows dataFrame_price)) else None),
                generation_forecast = dataFrame_generation_forecast,
                consumption_forecast = dataFrame_consumption_forecast,
                error_banners = banners [b1, b2, b3]\<rparr>,
           \<lparr>generation_cache = c1, consumption_cache = c2,
            generation_forecast_cache = c3, consumption_forecast_cache = c4\<rparr>)))))))"

subsection \<open>Concrete inputs\<close>

definition mar31 :: date where "mar31 = \<lparr>year = 2024, month = 3, day = 31\<rparr>"
definition apr01 :: date where "apr01 = \<lparr>year = 2024, month = 4, day = 1\<rparr>"
definition may01 :: date where "may01 = \<lparr>year = 2024, month = 5, day = 1\<rparr>"
definition may02 :: date where "may02 = \<lparr>year = 2024, month = 5, day = 2\<rparr>"

text \<open>A generation frame of three rows whose last row has a missing cell.\<close>

definition sample_generation :: dataframe where
  "sample_generation =
     \<lparr>columns = [''Solar'', ''Fossil Gas''],
      rows = [(1714510800, [Some 300, Some 100]),
              (1714514400, [Some 350, Some 150]),
              (1714518000, [Some 400, None])]\<rparr>"

definition sample_series :: dataframe where
  "sample_series = \<lparr>columns = [''0''], rows = [(1714510800, [Some 90]), (1714514400, [Some 95])]\<rparr>"

text \<open>A provider that answers every query, and providers with one query timing out.\<close>

definition client_ok :: entsoe_client where
  "client_ok =
     \<lparr>query_generation = (\<lambda>s e. Inr sample_generation),
      query_load = (\<lambda>s e. Inr sample_series),
      query_day_ahead_prices = (\<lambda>s e. Inr sample_series),
      query_generation_forecast = (\<lambda>s e. Inr sample_series),
      query_load_forecast = (\<lambda>s e. Inr sample_series)\<rparr>"

definition timeout :: py_error where
  "timeout = ProviderException ''timeout''"

definition client_load_down :: entsoe_client where
  "client_load_down = client_ok\<lparr>query_load := (\<lambda>s e. Inl timeout)\<rparr>"

definition client_generation_down :: entsoe_client where
  "client_generation_down = client_ok\<lparr>query_generation := (\<lambda>s e. Inl timeout)\<rparr>"

definition client_price_down :: entsoe_client where
  "client_price_down = client_ok\<lparr>query_day_ahead_prices := (\<lambda>s e. Inl timeout)\<rparr>"

definition client_forecast_down :: entsoe_client where
  "client_forecast_down = client_ok\<lparr>query_generation_forecast := (\<lambda>s e. Inl timeout)\<rparr>"

text \<open>A provider whose generation answer has a missing cell in every row.\<close>

definition gappy_generation :: dataframe where
  "gappy_generation =
     \<lparr>columns = [''Solar'', ''Fossil Gas''],
      rows = [(1714510800, [None, Some 100]), (1714514400, [Some 350, None])]\<rparr>"

definition client_gaps :: entsoe_client where
  "client_gaps = client_ok\<lparr>query_generation := (\<lambda>s e. Inr gappy_generation)\<rparr>"

text \<open>A provider that answers the generation query only for a range that ends before it starts.\<close>

definition client_inverted_only :: entsoe_client where
  "client_inverted_only =
     client_ok\<lparr>query_generation :=
       (\<lambda>s e. if e < s then Inr sample_generation else Inl (ProviderException ''range''))\<rparr>"

section \<open>Properties\<close>

subsection \<open>Weather status\<close>

lemma get_weather_data_ok:
  "owm lat lon = Inr (ok_json t w c) \<Longrightarrow>
   get_weather_data str owm lat lon p = (weather_info str t c w, weather_status p c w)"
  by (simp add: get_weather_data_def try_weather_def subscript_def ok_json_def)

lemma output_status_weather_status:
  "output_status (weather_status p c w) = Some (spec_output_status p c w)"
  by (simp add: output_status_def weather_status_def spec_output_status_def)

text \<open>
  Claim C8. For every successful weather lookup (the request returns a JSON answer holding
  temperature \<open>t\<close>, wind speed \<open>w\<close> and cloud cover \<open>c\<close>) the returned status is the
  one of the fixed threshold table: for Solar, cloud cover above 80 is low output, above 50
  moderate, otherwise high; for Wind, wind speed below 3 is low output, below 8 moderate,
  otherwise high; for every other category the status is not-applicable, whatever the
  observed values.
\<close>

theorem weather_status_mapping:
  assumes "owm lat lon = Inr (ok_json t w c)"
  shows "output_status (snd (get_weather_data str owm lat lon p))
           = Some (spec_output_status p c w)
       \<and> (p = ''Solar'' \<and> c > 80 \<longrightarrow>
           snd (get_weather_data str owm lat lon p) = ''Low Solar Output (Cloudy)'')
       \<and> (p = ''Solar'' \<and> \<not> c > 80 \<and> c > 50 \<longrightarrow>
           snd (get_weather_data str owm lat lon p) = ''Moderate Solar Output (Partly Cloudy)'')
       \<and> (p = ''Solar'' \<and> \<not> c > 50 \<longrightarrow>
           snd (get_weather_data str owm lat lon p) = ''High Solar Output (Clear)'')
       \<and> (p = ''Wind'' \<and> w < 3 \<longrightarrow>
           snd (get_weather_data str owm lat lon p) = ''Low Wind Output (Calm)'')
       \<and> (p = ''Wind'' \<and> \<not> w < 3 \<and> w < 8 \<longrightarrow>
           snd (get_weather_data str owm lat lon p) = ''Moderate Wind Output'')
       \<and> (p = ''Wind'' \<and> \<not> w < 8 \<longrightarrow>
           snd (get_weather_data str owm lat lon p) = ''High Wind Output (Windy)'')
       \<and> (p \<noteq> ''Solar'' \<and> p \<noteq> ''Wind'' \<longrightarrow>
           snd (get_weather_data str owm lat lon p) = ''-'')"
proof -
  have g: "snd (get_weather_data str owm lat lon p) = weather_status p c w"
    using assms by (simp add: get_weather_data_ok)
  have "output_status (weather_status p c w) = Some (spec_output_status p c w)"
    by (rule output_status_weather_status)
  moreover have "p = ''Solar'' \<and> c > 80 \<longrightarrow> weather_status p c w = ''Low Solar Output (Cloudy)''"
    by (simp add: weather_status_def)
  moreover have "p = ''Solar'' \<and> \<not> c > 80 \<and> c > 50 \<longrightarrow>
      weather_status p c w = ''Moderate Solar Output (Partly Cloudy)''"
    by (simp add: weather_status_def)
  moreover have "p = ''Solar'' \<and> \<not> c > 50 \<longrightarrow> weather_status p c w = ''High Solar Output (Clear)''"
    by (simp add: weather_status_def)
  moreover have "p = ''Wind'' \<and> w < 3 \<longrightarrow> weather_status p c w = ''Low Wind Output (Calm)''"
    by (simp add: weather_status_def)
  moreover have "p = ''Wind'' \<and> \<not> w < 3 \<and> w < 8 \<longrightarrow> weather_status p c w = ''Moderate Wind Output''"
    by (simp add: weather_status_def)
  moreover have "p = ''Wind'' \<and> \<not> w < 8 \<longrightarrow> weather_status p c w = ''High Wind Output (Windy)''"
    by (simp add: weather_status_def)
  moreover have "p \<noteq> ''Solar'' \<and> p \<noteq> ''Wind'' \<longrightarrow> weather_status p c w = ''-''"
    by (simp add: weather_status_def)
  ultimately show ?thesis
    unfolding g by blast
qed

text \<open>
  The scenarios of the specification: 85 percent cloud cover at a solar park, 5 m/s wind at a
  wind farm, and a hydro plant.
\<close>

theorem weather_status_mapping_witness:
  "snd (get_weather_data (\<lambda>x. []) (\<lambda>lat lon. Inr (ok_json 20 5 85)) 40 21 ''Solar'')
      = ''Low Solar Output (Cloudy)''
   \<and> output_status (snd (get_weather_data (\<lambda>x. []) (\<lambda>lat lon. Inr (ok_json 20 5 85)) 40 21 ''Solar''))
      = Some LowOutput
   \<and> output_status (snd (get_weather_data (\<lambda>x. []) (\<lambda>lat lon. Inr (ok_json 20 5 85)) 38 24 ''Wind''))
      = Some ModerateOutput
   \<and> output_status (snd (get_weather_data (\<lambda>x. []) (\<lambda>lat lon. Inr (ok_json 20 5 85)) 38 21 ''Hydro''))
      = Some NotApplicable"
  using weather_status_mapping [where owm = "\<lambda>lat lon. Inr (ok_json 20 5 85)" and lat = 40
      and lon = 21 and t = 20 and w = 5 and c = 85 and str = "\<lambda>x. []" and p = "''Solar''"]
    weather_status_mapping [where owm = "\<lambda>lat lon. Inr (ok_json 20 5 85)" and lat = 38
      and lon = 24 and t = 20 and w = 5 and c = 85 and str = "\<lambda>x. []" and p = "''Wind''"]
    weather_status_mapping [where owm = "\<lambda>lat lon. Inr (ok_json 20 5 85)" and lat = 38
      and lon = 21 and t = 20 and w = 5 and c = 85 and str = "\<lambda>x. []" and p = "''Hydro''"]
  by (simp add: spec_output_status_def output_status_def)

text \<open>
  Claim C10. On a successful lookup the Solar status is a function of the cloud cover alone
  (two answers that differ in temperature and wind speed give the same status), the Wind
  status is a function of the wind speed alone, and the status of any other category is the
  same for all answers.
\<close>

theorem weather_status_noninterference:
  assumes "owm1 lat1 lon1 = Inr (ok_json t1 w1 c1)"
    and "owm2 lat2 lon2 = Inr (ok_json t2 w2 c2)"
  shows "(c1 = c2 \<longrightarrow>
            snd (get_weather_data str1 owm1 lat1 lon1 ''Solar'')
              = snd (get_weather_data str2 owm2 lat2 lon2 ''Solar''))
       \<and> (w1 = w2 \<longrightarrow>
            snd (get_weather_data str1 owm1 lat1 lon1 ''Wind'')
              = snd (get_weather_data str2 owm2 lat2 lon2 ''Wind''))
       \<and> (p \<noteq> ''Solar'' \<and> p \<noteq> ''Wind'' \<longrightarrow>
            snd (get_weather_data str1 owm1 lat1 lon1 p)
              = snd (get_weather_data str2 owm2 lat2 lon2 p))"
  using assms by (simp add: get_weather_data_ok weather_status_def)

theorem weather_status_noninterference_witness:
  "snd (get_weather_data (\<lambda>x. []) (\<lambda>lat lon. Inr (ok_json 31 2 60)) 40 21 ''Solar'')
     = snd (get_weather_data (\<lambda>x. []) (\<lambda>lat lon. Inr (ok_json 4 12 60)) 40 21 ''Solar'')
   \<and> snd (get_weather_data (\<lambda>x. []) (\<lambda>lat lon. Inr (ok_json 31 2 60)) 40 21 ''Wind'')
     \<noteq> snd (get_weather_data (\<lambda>x. []) (\<lambda>lat lon. Inr (ok_json 4 12 60)) 40 21 ''Wind'')
   \<and> snd (get_weather_data (\<lambda>x. []) (\<lambda>lat lon. Inr (ok_json 31 2 60)) 40 21 ''Hydro'')
     = snd (get_weather_data (\<lambda>x. []) (\<lambda>lat lon. Inr (ok_json 4 12 60)) 40 21 ''Hydro'')"
proof -
  have "snd (get_weather_data (\<lambda>x. []) (\<lambda>lat lon. Inr (ok_json 31 2 60)) 40 21 ''Wind'')
     \<noteq> snd (get_weather_data (\<lambda>x. []) (\<lambda>lat lon. Inr (ok_json 4 12 60)) 40 21 ''Wind'')"
    by (simp add: get_weather_data_ok weather_status_def)
  then show ?thesis
    using weather_status_noninterference [where ?owm1.0 = "\<lambda>lat lon. Inr (ok_json 31 2 60)"
        and ?owm2.0 = "\<lambda>lat lon. Inr (ok_json 4 12 60)" and ?lat1.0 = 40 and ?lon1.0 = 21
        and ?lat2.0 = 40 and ?lon2.0 = 21 and ?t1.0 = 31 and ?w1.0 = 2 and ?c1.0 = 60
        and ?t2.0 = 4 and ?w2.0 = 12 and ?c2.0 = 60 and ?str1.0 = "\<lambda>x. []"
        and ?str2.0 = "\<lambda>x. []" and p = "''Hydro''"]
    by simp
qed

subsection \<open>Derived metrics\<close>

lemma sum_list_filter_if:
  "sum_list (map snd (filter P xs)) = (\<Sum>row\<leftarrow>xs. if P row then snd row else (0::real))"
  by (induction xs) simp_all

lemma renewable_generation_MW_spec:
  "renewable_generation_MW snap = spec_MW spec_renewable_set snap"
  by (simp add: renewable_generation_MW_def spec_MW_def sum_list_filter_if
      renewable_generation_def spec_renewable_set_def)

lemma lignite_generation_MW_spec:
  "lignite_generation_MW snap = spec_MW {''Fossil Brown coal/Lignite''} snap"
  by (simp add: lignite_generation_MW_def spec_MW_def sum_list_filter_if)

lemma natural_gas_generation_MW_spec:
  "natural_gas_generation_MW snap = spec_MW {''Fossil Gas''} snap"
  by (simp add: natural_gas_generation_MW_def spec_MW_def sum_list_filter_if)

lemma total_generation_MW_spec: "total_generation_MW snap = spec_totalMW snap"
  by (simp add: total_generation_MW_def spec_totalMW_def)

lemma scenario_values:
  "total_generation_MW scenario = 1000"
  "renewable_generation_MW scenario = 800"
  "lignite_generation_MW scenario = 100"
  "natural_gas_generation_MW scenario = 100"
  by (simp_all add: scenario_def total_generation_MW_def renewable_generation_MW_def
      renewable_generation_def lignite_generation_MW_def natural_gas_generation_MW_def)

text \<open>
  Claim C4. Whenever the total is not zero, the renewable share the code computes is the sum
  of MW over exactly the set Wind Onshore, Solar, Hydro Water Reservoir, Biomass, divided by
  the total, times 100, and the CO2 intensity is (lignite MW times 1000 plus gas MW times 400)
  divided by the total; for the scenario of the specification (wind 500, solar 300,
  lignite 100, gas 100) the total is 1000, the renewable share 80, the lignite share 10,
  the gas share 10 and the CO2 intensity 140.
\<close>

theorem derived_metrics_formulas:
  "(total_generation_MW snap \<noteq> 0 \<longrightarrow>
      total_generation_MW snap = spec_totalMW snap
    \<and> renewable_percentage snap = Finite (spec_renewableShare snap)
    \<and> co2_emissions snap = Finite (spec_co2IntensityKgPerMWh snap))
   \<and> total_generation_MW scenario = 1000
   \<and> renewable_percentage scenario = Finite 80
   \<and> lignite_percentage scenario = Finite 10
   \<and> natural_gas_percentage scenario = Finite 10
   \<and> co2_emissions scenario = Finite 140"
proof -
  have "renewable_percentage snap = Finite (spec_renewableShare snap)"
    if "total_generation_MW snap \<noteq> 0"
    using that
    by (simp add: renewable_percentage_def np_div_def spec_renewableShare_def
        renewable_generation_MW_spec total_generation_MW_spec)
  moreover have "co2_emissions snap = Finite (spec_co2IntensityKgPerMWh snap)"
    if "total_generation_MW snap \<noteq> 0"
    using that
    by (simp add: co2_emissions_def np_div_def spec_co2IntensityKgPerMWh_def
        lignite_generation_MW_spec natural_gas_generation_MW_spec total_generation_MW_spec)
  moreover have "renewable_percentage scenario = Finite 80"
    by (simp add: renewable_percentage_def np_div_def scenario_values)
  moreover have "lignite_percentage scenario = Finite 10"
    by (simp add: lignite_percentage_def np_div_def scenario_values)
  moreover have "natural_gas_percentage scenario = Finite 10"
    by (simp add: natural_gas_percentage_def np_div_def scenario_values)
  moreover have "co2_emissions scenario = Finite 140"
    by (simp add: co2_emissions_def np_div_def scenario_values)
  moreover note total_generation_MW_spec [of snap] scenario_values(1)
  ultimately show ?thesis
    by blast
qed

text \<open>
  At the scenario the formulas of the specification give the same numbers; a source outside
  the fixed set (run-of-river hydro) adds to the total only.
\<close>

theorem derived_metrics_formulas_witness:
  "total_generation_MW scenario \<noteq> 0
   \<and> spec_renewableShare scenario = 80
   \<and> spec_co2IntensityKgPerMWh scenario = 140
   \<and> renewable_percentage ((''Hydro Run-of-river and poundage'', 1000) # scenario) = Finite 40"
proof -
  have n: "total_generation_MW scenario \<noteq> 0"
    by (simp add: scenario_values)
  have "renewable_percentage ((''Hydro Run-of-river and poundage'', 1000) # scenario) = Finite 40"
    by (simp add: renewable_percentage_def np_div_def scenario_def total_generation_MW_def
        renewable_generation_MW_def renewable_generation_def)
  moreover have "Finite (spec_renewableShare scenario) = Finite 80"
    "Finite (spec_co2IntensityKgPerMWh scenario) = Finite 140"
    using n derived_metrics_formulas [of scenario] by metis+
  ultimately show ?thesis
    using n by simp
qed

lemma part_nonneg:
  "\<forall>row\<in>set xs. 0 \<le> snd row \<Longrightarrow> (0::real) \<le> sum_list (map snd (filter P xs))"
  by (induction xs) simp_all

lemma three_parts_le_total:
  assumes "\<forall>row\<in>set xs. (0::real) \<le> snd row"
    and "\<And>row. \<not> (P row \<and> Q row) \<and> \<not> (P row \<and> R row) \<and> \<not> (Q row \<and> R row)"
  shows "sum_list (map snd (filter P xs)) + sum_list (map snd (filter Q xs))
           + sum_list (map snd (filter R xs)) \<le> sum_list (map snd xs)"
  using assms(1)
proof (induction xs)
  case Nil
  then show ?case by simp
next
  case (Cons x xs)
  then have "sum_list (map snd (filter P xs)) + sum_list (map snd (filter Q xs))
           + sum_list (map snd (filter R xs)) \<le> sum_list (map snd xs)" and "0 \<le> snd x"
    by simp_all
  then show ?case
    using assms(2) [of x] by auto
qed

lemma generation_parts:
  assumes "\<forall>row\<in>set snap. 0 \<le> snd row"
  shows "0 \<le> renewable_generation_MW snap"
    and "0 \<le> lignite_generation_MW snap"
    and "0 \<le> natural_gas_generation_MW snap"
    and "renewable_generation_MW snap + lignite_generation_MW snap
           + natural_gas_generation_MW snap \<le> total_generation_MW snap"
proof -
  show "0 \<le> renewable_generation_MW snap" "0 \<le> lignite_generation_MW snap"
    "0 \<le> natural_gas_generation_MW snap"
    using assms
    by (simp_all add: renewable_generation_MW_def lignite_generation_MW_def
        natural_gas_generation_MW_def part_nonneg)
  have "\<not> (fst row \<in> set renewable_generation \<and> fst row = ''Fossil Brown coal/Lignite'')
      \<and> \<not> (fst row \<in> set renewable_generation \<and> fst row = ''Fossil Gas'')
      \<and> \<not> (fst row = ''Fossil Brown coal/Lignite'' \<and> fst row = ''Fossil Gas'')"
    for row :: "string \<times> real"
    by (auto simp add: renewable_generation_def)
  from three_parts_le_total [OF assms, of "\<lambda>row. fst row \<in> set renewable_generation"
      "\<lambda>row. fst row = ''Fossil Brown coal/Lignite''" "\<lambda>row. fst row = ''Fossil Gas''", OF this]
  show "renewable_generation_MW snap + lignite_generation_MW snap
           + natural_gas_generation_MW snap \<le> total_generation_MW snap"
    by (simp add: renewable_generation_MW_def lignite_generation_MW_def
        natural_gas_generation_MW_def total_generation_MW_def)
qed

subsection \<open>A snapshot whose total is zero\<close>

lemma np_div_zero: "np_div a 0 \<in> {NaN, PosInf, NegInf}"
  by (simp add: np_div_def)

lemma f64_times_special:
  "x \<in> {NaN, PosInf, NegInf} \<Longrightarrow> 0 < c \<Longrightarrow> f64_times x c \<in> {NaN, PosInf, NegInf}"
  by auto

lemma progress_special:
  "x \<in> {NaN, PosInf, NegInf} \<Longrightarrow> progress x \<in> {Inl ValueError, Inl OverflowError}"
  by (auto simp add: progress_def)

lemma quick_live_mix_stops:
  assumes "progress (renewable_percentage snap) = Inl e"
  shows "quick_live_mix snap =
           ([Markdown ''Total Generation'' (Finite (total_generation_MW snap)),
             Markdown ''Renewable Energy'' (renewable_percentage snap)], Some e)"
  using assms by (simp add: quick_live_mix_def)

lemma zero_total_parts:
  assumes "\<forall>row\<in>set snap. 0 \<le> snd row" and "total_generation_MW snap = 0"
  shows "renewable_generation_MW snap = 0" "lignite_generation_MW snap = 0"
    "natural_gas_generation_MW snap = 0"
  using generation_parts [OF assms(1)] assms(2) by simp_all

text \<open>
  Claim C1, as stated, fails: at a snapshot whose sources are all at 0 MW the total is 0, the
  renewable share is not-a-number, that value is shown in the sidebar text, and the integer
  conversion for the first progress bar raises \<open>ValueError\<close>.
\<close>

theorem zero_total_counterexample:
  "total_generation_MW all_zero = 0
   \<and> renewable_percentage all_zero = NaN
   \<and> quick_live_mix all_zero =
       ([Markdown ''Total Generation'' (Finite 0), Markdown ''Renewable Energy'' NaN],
        Some ValueError)"
proof -
  have t: "total_generation_MW all_zero = 0"
    by (simp add: all_zero_def total_generation_MW_def)
  have r: "renewable_percentage all_zero = NaN"
    by (simp add: renewable_percentage_def np_div_def t)
      (simp add: all_zero_def renewable_generation_MW_def)
  have "progress (renewable_percentage all_zero) = Inl ValueError"
    by (simp add: r progress_def)
  from quick_live_mix_stops [OF this] show ?thesis
    using t r by simp
qed

text \<open>
  Claim C1, amended. For every snapshot whose total is 0 the division is carried out under
  the IEEE rules and raises nothing: the renewable share, the lignite share, the gas share
  and the CO2 intensity are each not-a-number or an infinity, and not-a-number whenever no
  MW value is negative. Nothing replaces the value: the sidebar shows the total and the
  renewable share as computed, and the integer conversion for the first progress bar then
  raises (\<open>ValueError\<close> for not-a-number, \<open>OverflowError\<close> for an infinity).
\<close>

theorem zero_total_propagates:
  assumes "total_generation_MW snap = 0"
  shows "renewable_percentage snap \<in> {NaN, PosInf, NegInf}
       \<and> lignite_percentage snap \<in> {NaN, PosInf, NegInf}
       \<and> natural_gas_percentage snap \<in> {NaN, PosInf, NegInf}
       \<and> co2_emissions snap \<in> {NaN, PosInf, NegInf}
       \<and> fst (quick_live_mix snap) =
           [Markdown ''Total Generation'' (Finite 0),
            Markdown ''Renewable Energy'' (renewable_percentage snap)]
       \<and> snd (quick_live_mix snap) \<in> {Some ValueError, Some OverflowError}
       \<and> ((\<forall>row\<in>set snap. 0 \<le> snd row) \<longrightarrow>
            renewable_percentage snap = NaN \<and> lignite_percentage snap = NaN
          \<and> natural_gas_percentage snap = NaN \<and> co2_emissions snap = NaN
          \<and> snd (quick_live_mix snap) = Some ValueError)"
proof -
  have r: "renewable_percentage snap \<in> {NaN, PosInf, NegInf}"
    unfolding renewable_percentage_def assms by (rule f64_times_special [OF np_div_zero]) simp
  have l: "lignite_percentage snap \<in> {NaN, PosInf, NegInf}"
    unfolding lignite_percentage_def assms by (rule f64_times_special [OF np_div_zero]) simp
  have g: "natural_gas_percentage snap \<in> {NaN, PosInf, NegInf}"
    unfolding natural_gas_percentage_def assms by (rule f64_times_special [OF np_div_zero]) simp
  have c: "co2_emissions snap \<in> {NaN, PosInf, NegInf}"
    unfolding co2_emissions_def assms by (rule np_div_zero)
  from progress_special [OF r] obtain e
    where e: "progress (renewable_percentage snap) = Inl e" "e \<in> {ValueError, OverflowError}"
    by auto
  have q: "quick_live_mix snap =
           ([Markdown ''Total Generation'' (Finite 0),
             Markdown ''Renewable Energy'' (renewable_percentage snap)], Some e)"
    using quick_live_mix_stops [OF e(1)] assms by simp
  have "renewable_percentage snap = NaN \<and> lignite_percentage snap = NaN
          \<and> natural_gas_percentage snap = NaN \<and> co2_emissions snap = NaN
          \<and> snd (quick_live_mix snap) = Some ValueError"
    if nn: "\<forall>row\<in>set snap. 0 \<le> snd row"
  proof -
    note z = zero_total_parts [OF nn assms]
    have rn: "renewable_percentage snap = NaN"
      by (simp add: renewable_percentage_def np_div_def z assms)
    have "progress (renewable_percentage snap) = Inl ValueError"
      by (simp add: rn progress_def)
    from quick_live_mix_stops [OF this] have "snd (quick_live_mix snap) = Some ValueError"
      by simp
    then show ?thesis
      using rn
      by (simp add: lignite_percentage_def natural_gas_percentage_def co2_emissions_def
          np_div_def z assms)
  qed
  then show ?thesis
    using r l g c q e(2) by auto
qed

text \<open>A single idle source; and a snapshot whose values cancel, where the share is infinite.\<close>

theorem zero_total_propagates_witness:
  "total_generation_MW [(''Solar'', 0)] = 0
   \<and> co2_emissions [(''Solar'', 0)] = NaN
   \<and> snd (quick_live_mix [(''Solar'', 0)]) = Some ValueError
   \<and> total_generation_MW [(''Solar'', 5), (''Fossil Gas'', - 5)] = 0
   \<and> snd (quick_live_mix [(''Solar'', 5), (''Fossil Gas'', - 5)]) = Some OverflowError"
proof -
  have a: "total_generation_MW [(''Solar'', 0)] = 0"
    by (simp add: total_generation_MW_def)
  have b: "total_generation_MW [(''Solar'', 5), (''Fossil Gas'', - 5)] = 0"
    by (simp add: total_generation_MW_def)
  have "renewable_percentage [(''Solar'', 5), (''Fossil Gas'', - 5)] = PosInf"
    by (simp add: renewable_percentage_def b np_div_def)
      (simp add: renewable_generation_MW_def renewable_generation_def)
  then have "progress (renewable_percentage [(''Solar'', 5), (''Fossil Gas'', - 5)])
      = Inl OverflowError"
    by (simp add: progress_def)
  from quick_live_mix_stops [OF this]
  have "snd (quick_live_mix [(''Solar'', 5), (''Fossil Gas'', - 5)]) = Some OverflowError"
    by simp
  then show ?thesis
    using a b zero_total_propagates [OF a] by simp
qed

subsection \<open>Selecting the snapshot\<close>

lemma those_eq_Some: "those xs = Some ys \<longleftrightarrow> xs = map Some ys"
proof (induction xs arbitrary: ys)
  case Nil
  show ?case by (cases ys) simp_all
next
  case (Cons x xs)
  show ?case
  proof (cases x)
    case None
    have "None # xs \<noteq> map Some ys"
      by (cases ys) simp_all
    then show ?thesis
      using None by simp
  next
    case (Some a)
    have "those (x # xs) = Some ys \<longleftrightarrow> (\<exists>zs. those xs = Some zs \<and> ys = a # zs)"
      unfolding Some by (cases "those xs") (simp_all add: eq_commute)
    also have "\<dots> \<longleftrightarrow> (\<exists>zs. xs = map Some zs \<and> ys = a # zs)"
      by (simp only: Cons.IH)
    also have "\<dots> \<longleftrightarrow> x # xs = map Some ys"
      unfolding Some by (cases ys) (simp_all add: eq_commute conj_commute)
    finally show ?thesis .
  qed
qed

lemma those_eq_None: "those xs = None \<longleftrightarrow> None \<in> set xs"
proof (induction xs)
  case Nil
  show ?case by simp
next
  case (Cons x xs)
  show ?case
  proof (cases x)
    case None
    then show ?thesis by simp
  next
    case (Some a)
    have "those (x # xs) = None \<longleftrightarrow> those xs = None"
      unfolding Some by (cases "those xs") simp_all
    then show ?thesis
      using Cons.IH Some by simp
  qed
qed

lemma dropna_append: "dropna (xs @ ys) = dropna xs @ dropna ys"
  by (induction xs rule: dropna.induct) (simp_all split: option.splits)

lemma dropna_Nil_iff: "dropna xs = [] \<longleftrightarrow> (\<forall>r\<in>set xs. None \<in> set (snd r))"
proof (induction xs rule: dropna.induct)
  case 1
  then show ?case by simp
next
  case (2 t cells rest)
  show ?case
  proof (cases "those cells")
    case None
    then have "None \<in> set cells"
      by (simp add: those_eq_None)
    then show ?thesis
      using None 2(1) by simp
  next
    case (Some mw)
    then have "None \<notin> set cells"
      using those_eq_None [of cells] by simp
    then show ?thesis
      using Some by simp
  qed
qed

lemma dropna_complete: "dropna [(t, map Some mw)] = [(t, mw)]"
proof -
  have "those (map Some mw) = Some mw"
    by (simp add: those_eq_Some)
  then show ?thesis by simp
qed

lemma dropna_last_intro:
  assumes "xs = pre @ (t, map Some mw) # post" and "dropna post = []"
  shows "dropna xs = dropna pre @ [(t, mw)]"
proof -
  have "xs = pre @ [(t, map Some mw)] @ post"
    using assms(1) by simp
  then show ?thesis
    using assms(2) by (simp only: dropna_append dropna_complete) simp
qed

lemma dropna_last_elim:
  "dropna xs \<noteq> [] \<Longrightarrow>
   \<exists>pre t mw post. xs = pre @ (t, map Some mw) # post \<and> dropna post = []
      \<and> last (dropna xs) = (t, mw)"
proof (induction xs rule: rev_induct)
  case Nil
  then show ?case by simp
next
  case (snoc x xs)
  obtain t cells where x: "x = (t, cells)"
    by (cases x)
  show ?case
  proof (cases "those cells")
    case None
    then have d: "dropna (xs @ [x]) = dropna xs"
      by (simp add: dropna_append x)
    with snoc obtain pre t' mw post
      where "xs = pre @ (t', map Some mw) # post" "dropna post = []"
        "last (dropna xs) = (t', mw)"
      by auto
    then have "xs @ [x] = pre @ (t', map Some mw) # (post @ [x])"
      "dropna (post @ [x]) = []" "last (dropna (xs @ [x])) = (t', mw)"
      using None d by (simp_all add: dropna_append x)
    then show ?thesis by blast
  next
    case (Some mw)
    then have "cells = map Some mw"
      by (simp add: those_eq_Some)
    then have "xs @ [x] = xs @ (t, map Some mw) # []" "dropna [] = []"
      "last (dropna (xs @ [x])) = (t, mw)"
      using Some by (simp_all add: dropna_append x)
    then show ?thesis by blast
  qed
qed

text \<open>
  Claim C9. When the provider has answered with a frame, the fetch returns that frame with a
  snapshot and a timestamp exactly when the frame splits into earlier rows, one row without
  a missing cell, and later rows that each have a missing cell; the snapshot is that row
  under the column labels and the timestamp is that row's: the last fully populated row,
  not the last row with its gaps filled. When every row has a missing cell the fetch raises
  \<open>IndexError\<close>.
\<close>

theorem snapshot_is_last_complete_row:
  assumes "query_generation client (start_time s) (end_time e) = Inr df"
  shows "(get_generation_data_body client (s, e) = Inr (df', snap, t) \<longleftrightarrow>
            df' = df \<and>
            (\<exists>pre mw post. rows df = pre @ (t, map Some mw) # post
                \<and> (\<forall>r\<in>set post. None \<in> set (snd r))
                \<and> snap = zip (columns df) mw))
       \<and> (get_generation_data_body client (s, e) = Inl IndexError \<longleftrightarrow>
            (\<forall>r\<in>set (rows df). None \<in> set (snd r)))"
proof -
  have body: "get_generation_data_body client (s, e) =
      (case iloc_last (dropna (rows df)) of
         Inl e \<Rightarrow> Inl e
       | Inr (data_time, mw) \<Rightarrow> Inr (df, zip (columns df) mw, data_time))"
    using assms by (simp add: get_generation_data_body_def)
  show ?thesis
  proof (cases "dropna (rows df) = []")
    case True
    then have none: "\<forall>r\<in>set (rows df). None \<in> set (snd r)"
      by (simp add: dropna_Nil_iff)
    have "get_generation_data_body client (s, e) = Inl IndexError"
      using True by (simp add: body iloc_last_def)
    moreover have "\<not> (\<exists>pre mw post. rows df = pre @ (t, map Some mw) # post
                \<and> (\<forall>r\<in>set post. None \<in> set (snd r))
                \<and> snap = zip (columns df) mw)"
    proof
      assume "\<exists>pre mw post. rows df = pre @ (t, map Some mw) # post
                \<and> (\<forall>r\<in>set post. None \<in> set (snd r))
                \<and> snap = zip (columns df) mw"
      then obtain pre mw post where "rows df = pre @ (t, map Some mw) # post"
        by blast
      then have "(t, map Some mw) \<in> set (rows df)"
        by simp
      with none have "None \<in> set (map Some mw)"
        by fastforce
      then show False by auto
    qed
    ultimately show ?thesis
      using none by simp
  next
    case False
    from dropna_last_elim [OF False] obtain pre0 t0 mw0 post0
      where split: "rows df = pre0 @ (t0, map Some mw0) # post0" "dropna post0 = []"
        and l: "last (dropna (rows df)) = (t0, mw0)"
      by blast
    have res: "get_generation_data_body client (s, e) = Inr (df, zip (columns df) mw0, t0)"
      using False l by (simp add: body iloc_last_def)
    have some: "\<not> (\<forall>r\<in>set (rows df). None \<in> set (snd r))"
      using False by (simp add: dropna_Nil_iff)
    have eq1: "get_generation_data_body client (s, e) = Inr (df', snap, t) \<longleftrightarrow>
        (df' = df \<and> snap = zip (columns df) mw0 \<and> t = t0)"
      unfolding res by auto
    have eq2: "get_generation_data_body client (s, e) \<noteq> Inl IndexError"
      unfolding res by simp
    have "(df' = df \<and> snap = zip (columns df) mw0 \<and> t = t0) \<longleftrightarrow>
            df' = df \<and>
            (\<exists>pre mw post. rows df = pre @ (t, map Some mw) # post
                \<and> (\<forall>r\<in>set post. None \<in> set (snd r))
                \<and> snap = zip (columns df) mw)"
    proof (intro iffI conjI)
      assume a: "df' = df \<and> snap = zip (columns df) mw0 \<and> t = t0"
      then show "df' = df" by simp
      have "rows df = pre0 @ (t, map Some mw0) # post0 \<and> (\<forall>r\<in>set post0. None \<in> set (snd r))
          \<and> snap = zip (columns df) mw0"
        using a split by (simp add: dropna_Nil_iff)
      then show "\<exists>pre mw post. rows df = pre @ (t, map Some mw) # post
                \<and> (\<forall>r\<in>set post. None \<in> set (snd r))
                \<and> snap = zip (columns df) mw"
        by blast
    next
      assume b: "df' = df \<and>
            (\<exists>pre mw post. rows df = pre @ (t, map Some mw) # post
                \<and> (\<forall>r\<in>set post. None \<in> set (snd r))
                \<and> snap = zip (columns df) mw)"
      then show "df' = df" by simp
      from b obtain pre mw post where p: "rows df = pre @ (t, map Some mw) # post"
        "\<forall>r\<in>set post. None \<in> set (snd r)" "snap = zip (columns df) mw"
        by blast
      have "dropna (rows df) = dropna pre @ [(t, mw)]"
        using p(1,2) by (intro dropna_last_intro) (simp_all add: dropna_Nil_iff)
      then have "last (dropna (rows df)) = (t, mw)"
        by simp
      with l have "t = t0" "mw = mw0"
        by simp_all
      then show "snap = zip (columns df) mw0" "t = t0"
        using p(3) by simp_all
    qed
    with eq1 have "get_generation_data_body client (s, e) = Inr (df', snap, t) \<longleftrightarrow>
            df' = df \<and>
            (\<exists>pre mw post. rows df = pre @ (t, map Some mw) # post
                \<and> (\<forall>r\<in>set post. None \<in> set (snd r))
                \<and> snap = zip (columns df) mw)"
      by (rule trans)
    moreover have "get_generation_data_body client (s, e) = Inl IndexError \<longleftrightarrow>
            (\<forall>r\<in>set (rows df). None \<in> set (snd r))"
      using eq2 some by simp
    ultimately show ?thesis
      by (rule conjI)
  qed
qed

text \<open>
  The sample frame: its last row lacks the gas value, so the snapshot is the row before it,
  not the last row with 0 for gas.
\<close>

theorem snapshot_is_last_complete_row_witness:
  "get_generation_data_body client_ok (may01, may02)
     = Inr (sample_generation, [(''Solar'', 350), (''Fossil Gas'', 150)], 1714514400)
   \<and> get_generation_data_body client_ok (may01, may02)
     \<noteq> Inr (sample_generation, [(''Solar'', 400), (''Fossil Gas'', 0)], 1714518000)
   \<and> get_generation_data_body client_gaps (may01, may02) = Inl IndexError"
proof -
  have q': "query_generation client_gaps (start_time may01) (end_time may02) = Inr gappy_generation"
    by (simp add: client_gaps_def)
  have "\<forall>r\<in>set (rows gappy_generation). None \<in> set (snd r)"
    by (simp add: gappy_generation_def)
  then have gaps: "get_generation_data_body client_gaps (may01, may02) = Inl IndexError"
    by (rule iffD2 [OF conjunct2 [OF snapshot_is_last_complete_row [OF q']]])
  have q: "query_generation client_ok (start_time may01) (end_time may02) = Inr sample_generation"
    by (simp add: client_ok_def)
  have ex: "\<exists>pre mw post. rows sample_generation = pre @ (1714514400, map Some mw) # post
                \<and> (\<forall>r\<in>set post. None \<in> set (snd r))
                \<and> [(''Solar'', 350 :: real), (''Fossil Gas'', 150)]
                    = zip (columns sample_generation) mw"
    apply (rule exI [of _ "[(1714510800, [Some 300, Some 100])]"])
    apply (rule exI [of _ "[350, 150]"])
    apply (rule exI [of _ "[(1714518000, [Some 400, None])]"])
    apply (simp add: sample_generation_def)
    done
  have "get_generation_data_body client_ok (may01, may02)
     = Inr (sample_generation, [(''Solar'', 350), (''Fossil Gas'', 150)], 1714514400)"
    by (rule iffD2 [OF conjunct1 [OF snapshot_is_last_complete_row [OF q]]])
      (rule conjI [OF refl ex])
  then show ?thesis
    using gaps by simp
qed


subsection \<open>The time range\<close>

lemma start_time_is_local_midnight: "start_time d = localize d 0"
  by (simp add: start_time_def)

lemma end_time_regular_day:
  "utc_offset d 0 = utc_offset d 86399 \<Longrightarrow> end_time d = localize d 86399"
  by (simp add: end_time_def localize_def)

lemma mar31_values:
  "days_from_civil mar31 = 19813"
  "utc_offset mar31 0 = 7200"
  "utc_offset mar31 86399 = 10800"
  by (simp_all add: mar31_def utc_offset_def days_from_civil_def last_sunday_def weekday_def)

lemma apr01_values:
  "days_from_civil apr01 = 19814"
  "utc_offset apr01 0 = 10800"
  "utc_offset apr01 3599 = 10800"
  by (simp_all add: apr01_def utc_offset_def days_from_civil_def last_sunday_def weekday_def)

lemma may_values:
  "days_from_civil may01 = 19844"
  "days_from_civil may02 = 19845"
  "utc_offset may01 0 = 10800"
  "utc_offset may02 0 = 10800"
  by (simp_all add: may01_def may02_def utc_offset_def days_from_civil_def last_sunday_def
      weekday_def)

text \<open>
  Claim C6, at an end date on which the clocks change. 31 March 2024 is a valid date and has
  23 hours in Athens: its midnight plus one day minus one second is the instant 1711922399,
  which is 00:59:59 local time of 1 April, while 23:59:59 local time of 31 March is the
  instant 1711918799, an hour earlier.
\<close>

theorem end_time_on_clock_change:
  "valid_date mar31
   \<and> start_time mar31 = localize mar31 0
   \<and> end_time mar31 = 1711922399
   \<and> localize mar31 86399 = 1711918799
   \<and> end_time mar31 = localize apr01 3599"
  by (simp add: start_time_def end_time_def localize_def mar31_values apr01_values)
    (simp add: valid_date_def mar31_def days_in_month_def)

text \<open>
  Claim C7, as stated, fails: with the start date 2 May 2024 and the end date 1 May 2024 the
  range ends before it starts, the provider is queried with it (this provider answers no
  other kind of range) and the fetch returns its answer.
\<close>

theorem inverted_range_counterexample:
  "date_less may01 may02
   \<and> end_time may01 < start_time may02
   \<and> get_generation_data_body client_inverted_only (may02, may01)
       = Inr (sample_generation, [(''Solar'', 350), (''Fossil Gas'', 150)], 1714514400)"
proof -
  have r: "end_time may01 < start_time may02"
    by (simp add: start_time_def end_time_def localize_def may_values)
  have d: "dropna (rows sample_generation) = [(1714510800, [300, 100]), (1714514400, [350, 150])]"
    by (simp add: sample_generation_def)
  have c: "columns sample_generation = [''Solar'', ''Fossil Gas'']"
    by (simp add: sample_generation_def)
  have "get_generation_data_body client_inverted_only (may02, may01)
       = Inr (sample_generation, [(''Solar'', 350), (''Fossil Gas'', 150)], 1714514400)"
    using r by (simp add: get_generation_data_body_def client_inverted_only_def d c iloc_last_def)
  then show ?thesis
    using r by (simp add: date_less_def may01_def may02_def)
qed

text \<open>
  Claim C7, amended. For every pair of calendar dates, also when the start date is later
  than the end date, nothing is validated: the range is given to the provider as computed.
  An exception of the provider call is the fetch's exception, an answer with a fully
  populated row makes the fetch succeed with that answer, and the fetch raises nothing but
  the provider's exception or the \<open>IndexError\<close> of an answer without such a row.
\<close>

theorem no_range_validation:
  "(query_generation client (start_time s) (end_time e) = Inl err \<longrightarrow>
      get_generation_data_body client (s, e) = Inl err)
   \<and> (query_generation client (start_time s) (end_time e) = Inr df \<and> dropna (rows df) \<noteq> [] \<longrightarrow>
      (\<exists>snap t. get_generation_data_body client (s, e) = Inr (df, snap, t)))
   \<and> (get_generation_data_body client (s, e) = Inl err \<longrightarrow>
      query_generation client (start_time s) (end_time e) = Inl err \<or> err = IndexError)"
proof (intro conjI impI)
  assume "query_generation client (start_time s) (end_time e) = Inl err"
  then show "get_generation_data_body client (s, e) = Inl err"
    by (simp add: get_generation_data_body_def)
next
  assume a: "query_generation client (start_time s) (end_time e) = Inr df \<and> dropna (rows df) \<noteq> []"
  obtain t mw where "last (dropna (rows df)) = (t, mw)"
    by (cases "last (dropna (rows df))")
  then have "get_generation_data_body client (s, e) = Inr (df, zip (columns df) mw, t)"
    using a by (simp add: get_generation_data_body_def iloc_last_def)
  then show "\<exists>snap t. get_generation_data_body client (s, e) = Inr (df, snap, t)"
    by blast
next
  assume b: "get_generation_data_body client (s, e) = Inl err"
  show "query_generation client (start_time s) (end_time e) = Inl err \<or> err = IndexError"
  proof (cases "query_generation client (start_time s) (end_time e)")
    case (Inl x)
    then show ?thesis
      using b by (simp add: get_generation_data_body_def)
  next
    case (Inr df)
    then show ?thesis
      using b
      by (cases "dropna (rows df) = []")
        (simp_all add: get_generation_data_body_def iloc_last_def split: prod.splits)
  qed
qed

theorem no_range_validation_witness:
  "date_less may01 may02
   \<and> query_generation client_inverted_only (start_time may02) (end_time may01)
       = Inr sample_generation
   \<and> dropna (rows sample_generation) \<noteq> []
   \<and> (\<exists>snap t. get_generation_data_body client_inverted_only (may02, may01)
          = Inr (sample_generation, snap, t))
   \<and> query_generation client_inverted_only (start_time may01) (end_time may02)
       = Inl (ProviderException ''range'')
   \<and> get_generation_data_body client_inverted_only (may01, may02)
       = Inl (ProviderException ''range'')"
proof -
  have r': "\<not> end_time may02 < start_time may01"
    by (simp add: start_time_def end_time_def localize_def may_values)
  have q': "query_generation client_inverted_only (start_time may01) (end_time may02)
       = Inl (ProviderException ''range'')"
    using r' by (simp add: client_inverted_only_def)
  have e': "get_generation_data_body client_inverted_only (may01, may02)
       = Inl (ProviderException ''range'')"
    using q' no_range_validation [of client_inverted_only may01 may02 "ProviderException ''range''"]
    by blast
  have r: "end_time may01 < start_time may02"
    by (simp add: start_time_def end_time_def localize_def may_values)
  have q: "query_generation client_inverted_only (start_time may02) (end_time may01)
       = Inr sample_generation"
    using r by (simp add: client_inverted_only_def)
  have d: "dropna (rows sample_generation) \<noteq> []"
    by (simp add: sample_generation_def)
  have l: "date_less may01 may02"
    by (simp add: date_less_def may01_def may02_def)
  have "\<exists>snap t. get_generation_data_body client_inverted_only (may02, may01)
          = Inr (sample_generation, snap, t)"
    using q d no_range_validation [of client_inverted_only may02 may01 IndexError sample_generation]
    by blast
  then show ?thesis
    using l q d q' e' by simp
qed


subsection \<open>Failures of a fetch\<close>

lemma sample_snapshot:
  "dropna (rows sample_generation) = [(1714510800, [300, 100]), (1714514400, [350, 150])]"
  "columns sample_generation = [''Solar'', ''Fossil Gas'']"
  by (simp_all add: sample_generation_def)

lemma sample_overview:
  "quick_live_mix [(''Solar'', 350), (''Fossil Gas'', 150)] =
     ([Markdown ''Total Generation'' (Finite 500),
       Markdown ''Renewable Energy'' (Finite 70), Progress 70,
       Markdown ''CO2 Emissions'' (Finite 120), Progress 12,
       Markdown ''Lignite'' (Finite 0), Progress 0,
       Markdown ''Natural Gas'' (Finite 30), Progress 30], None)"
proof -
  have v: "total_generation_MW [(''Solar'', 350), (''Fossil Gas'', 150)] = 500"
    "renewable_generation_MW [(''Solar'', 350), (''Fossil Gas'', 150)] = 350"
    "lignite_generation_MW [(''Solar'', 350), (''Fossil Gas'', 150)] = 0"
    "natural_gas_generation_MW [(''Solar'', 350), (''Fossil Gas'', 150)] = 150"
    by (simp_all add: total_generation_MW_def renewable_generation_MW_def
        renewable_generation_def lignite_generation_MW_def natural_gas_generation_MW_def)
  have p: "renewable_percentage [(''Solar'', 350), (''Fossil Gas'', 150)] = Finite 70"
    "co2_emissions [(''Solar'', 350), (''Fossil Gas'', 150)] = Finite 120"
    "co2_emissions_percentage [(''Solar'', 350), (''Fossil Gas'', 150)] = Finite 12"
    "lignite_percentage [(''Solar'', 350), (''Fossil Gas'', 150)] = Finite 0"
    "natural_gas_percentage [(''Solar'', 350), (''Fossil Gas'', 150)] = Finite 30"
    by (simp_all add: renewable_percentage_def co2_emissions_def co2_emissions_percentage_def
        lignite_percentage_def natural_gas_percentage_def np_div_def v)
  show ?thesis
    by (simp add: quick_live_mix_def p v progress_def)
qed

lemma cache_data_miss:
  "cache k = None \<Longrightarrow>
   cache_data t f now k cache =
     (case f k of
        Inl e \<Rightarrow> (Inl e, cache)
      | Inr v \<Rightarrow> (Inr v, cache(k \<mapsto> \<lparr>cached_value = v, fetched_at = now, ttl = t\<rparr>)))"
  by (simp add: cache_data_def fetch_and_store_def)

lemma generation_fetch_ok:
  assumes "query_generation client = (\<lambda>s e. Inr sample_generation)"
  shows "get_generation_data client now (a, b) Map.empty =
     (Inr (sample_generation, [(''Solar'', 350), (''Fossil Gas'', 150)], 1714514400),
      [(a, b) \<mapsto> \<lparr>cached_value =
          (sample_generation, [(''Solar'', 350), (''Fossil Gas'', 150)], 1714514400),
          fetched_at = now, ttl = 900\<rparr>])"
  by (simp add: get_generation_data_def cache_data_miss get_generation_data_body_def
      assms sample_snapshot iloc_last_def)

lemma consumption_fetch:
  "get_consumption_data client now (a, b) Map.empty =
     (case query_load client (start_time a) (end_time b) of
        Inl e \<Rightarrow> (Inl e, Map.empty)
      | Inr v \<Rightarrow> (Inr v, [(a, b) \<mapsto> \<lparr>cached_value = v, fetched_at = now, ttl = 900\<rparr>]))"
  by (simp add: get_consumption_data_def cache_data_miss get_consumption_data_body_def)

lemma forecast_fetch_ok:
  "query_generation_forecast client = (\<lambda>s e. Inr df) \<Longrightarrow>
   get_generation_forecast client now (a, b) Map.empty =
     (Inr (df, None), [(a, b) \<mapsto> \<lparr>cached_value = (df, None), fetched_at = now, ttl = 900\<rparr>])"
  "query_load_forecast client = (\<lambda>s e. Inr df) \<Longrightarrow>
   get_consumption_forecast client now (a, b) Map.empty =
     (Inr (df, None), [(a, b) \<mapsto> \<lparr>cached_value = (df, None), fetched_at = now, ttl = 900\<rparr>])"
  by (simp_all add: get_generation_forecast_def get_consumption_forecast_def cache_data_miss
      get_generation_forecast_body_def get_consumption_forecast_body_def)

text \<open>
  Claim C2, at a provider whose load query times out: the exception leaves
  \<open>get_consumption_data\<close> and ends the run, so no section is rendered, although the
  generation answer was there. The same holds for the generation query. A timeout of the
  price query, whose function has a \<open>try\<close>, is contained: the run completes and the
  price is shown as "N/A".
\<close>

theorem load_failure_ends_run:
  "fst (get_consumption_data client_load_down 0 (may01, may02) Map.empty) = Inl timeout
   \<and> fst (script client_load_down 0 may01 may02 may02 empty_caches) = Inl timeout
   \<and> fst (get_generation_data client_generation_down 0 (may01, may02) Map.empty) = Inl timeout
   \<and> fst (script client_generation_down 0 may01 may02 may02 empty_caches) = Inl timeout
   \<and> get_price_data client_price_down (may01, may02) = (empty_frame, Some timeout)
   \<and> map_sum id latest_price (fst (script client_price_down 0 may01 may02 may02 empty_caches))
       = Inr None"
proof -
  have c: "get_consumption_data client_load_down 0 (may01, may02) Map.empty
      = (Inl timeout, Map.empty)"
    by (simp add: consumption_fetch client_load_down_def)
  have g: "get_generation_data client_generation_down 0 (may01, may02) Map.empty
      = (Inl timeout, Map.empty)"
    by (simp add: get_generation_data_def cache_data_miss get_generation_data_body_def
        client_generation_down_def)
  have p: "get_price_data client_price_down (may01, may02) = (empty_frame, Some timeout)"
    by (simp add: get_price_data_def client_price_down_def)
  have g1: "query_generation client_load_down = (\<lambda>s e. Inr sample_generation)"
    "query_generation client_price_down = (\<lambda>s e. Inr sample_generation)"
    by (simp_all add: client_load_down_def client_price_down_def client_ok_def)
  have s1: "fst (script client_load_down 0 may01 may02 may02 empty_caches) = Inl timeout"
    by (simp add: script_def empty_caches_def c generation_fetch_ok [OF g1(1)])
  have s2: "fst (script client_generation_down 0 may01 may02 may02 empty_caches) = Inl timeout"
    by (simp add: script_def empty_caches_def g)
  have c2: "get_consumption_data client_price_down 0 (may01, may02) Map.empty
      = (Inr sample_series,
         [(may01, may02) \<mapsto> \<lparr>cached_value = sample_series, fetched_at = 0, ttl = 900\<rparr>])"
    by (simp add: consumption_fetch client_price_down_def client_ok_def)
  have f: "query_generation_forecast client_price_down = (\<lambda>s e. Inr sample_series)"
    "query_load_forecast client_price_down = (\<lambda>s e. Inr sample_series)"
    by (simp_all add: client_price_down_def client_ok_def)
  have s3: "map_sum id latest_price
      (fst (script client_price_down 0 may01 may02 may02 empty_caches)) = Inr None"
    by (simp add: script_def empty_caches_def generation_fetch_ok [OF g1(2)] c2 p
        forecast_fetch_ok(1) [OF f(1)] forecast_fetch_ok(2) [OF f(2)]
        sample_overview is_empty_def empty_frame_def)
  show ?thesis
    using s1 s2 s3 by (simp add: c g p)
qed

subsection \<open>Time to live of what is stored\<close>

lemma cache_data_new_entry:
  "snd (cache_data t f now key cache) k = Some entry \<and> cache k \<noteq> Some entry \<longrightarrow>
   k = key \<and> ttl entry = t \<and> fetched_at entry = now"
proof (cases "f key")
  case (Inl err)
  then have "snd (cache_data t f now key cache) = cache"
    by (simp add: cache_data_def fetch_and_store_def split: option.splits)
  then show ?thesis by simp
next
  case (Inr v)
  then have "snd (cache_data t f now key cache) = cache
      \<or> snd (cache_data t f now key cache)
            = cache(key \<mapsto> \<lparr>cached_value = v, fetched_at = now, ttl = t\<rparr>)"
    by (simp add: cache_data_def fetch_and_store_def split: option.splits)
  then show ?thesis
  proof
    assume "snd (cache_data t f now key cache) = cache"
    then show ?thesis by simp
  next
    assume u: "snd (cache_data t f now key cache)
            = cache(key \<mapsto> \<lparr>cached_value = v, fetched_at = now, ttl = t\<rparr>)"
    show ?thesis
    proof (cases "k = key")
      case True
      show ?thesis
        unfolding u True by auto
    next
      case False
      then show ?thesis
        unfolding u by simp
    qed
  qed
qed

lemma cache_data_raises:
  "fst (cache_data t f now key cache) = Inl err \<longrightarrow> snd (cache_data t f now key cache) = cache"
  by (cases "f key")
    (simp_all add: cache_data_def fetch_and_store_def split: option.splits)

lemma forecast_miss:
  assumes "cache (s, e) = None"
  shows "\<exists>v. get_generation_forecast client now (s, e) cache
           = (Inr v, cache((s, e) \<mapsto> \<lparr>cached_value = v, fetched_at = now, ttl = 900\<rparr>))
         \<and> (\<forall>err. query_generation_forecast client (start_time s) (end_time e) = Inl err
               \<longrightarrow> v = (empty_frame, Some err))
         \<and> (\<forall>df. query_generation_forecast client (start_time s) (end_time e) = Inr df
               \<longrightarrow> v = (df, None))"
  by (cases "query_generation_forecast client (start_time s) (end_time e)")
    (simp_all add: get_generation_forecast_def cache_data_miss assms
      get_generation_forecast_body_def)

lemma load_forecast_miss:
  assumes "cache (s, e) = None"
  shows "\<exists>v. get_consumption_forecast client now (s, e) cache
           = (Inr v, cache((s, e) \<mapsto> \<lparr>cached_value = v, fetched_at = now, ttl = 900\<rparr>))
         \<and> (\<forall>err. query_load_forecast client (start_time s) (end_time e) = Inl err
               \<longrightarrow> v = (empty_frame, Some err))
         \<and> (\<forall>df. query_load_forecast client (start_time s) (end_time e) = Inr df
               \<longrightarrow> v = (df, None))"
  by (cases "query_load_forecast client (start_time s) (end_time e)")
    (simp_all add: get_consumption_forecast_def cache_data_miss assms
      get_consumption_forecast_body_def)

lemma cache_data_hit:
  "cache key = Some entry \<and> now < fetched_at entry + ttl entry \<longrightarrow>
   cache_data t f now key cache = (Inr (cached_value entry), cache)"
  by (simp add: cache_data_def)

lemma cache_data_expired:
  "cache key = Some entry \<and> fetched_at entry + ttl entry < now \<longrightarrow>
   cache_data t f now key cache =
     (case f key of
        Inl e \<Rightarrow> (Inl e, cache)
      | Inr v \<Rightarrow> (Inr v, cache(key \<mapsto> \<lparr>cached_value = v, fetched_at = now, ttl = t\<rparr>)))"
  by (simp add: cache_data_def fetch_and_store_def)

lemma cache_data_miss_imp:
  "cache key = None \<longrightarrow>
   cache_data t f now key cache =
     (case f key of
        Inl e \<Rightarrow> (Inl e, cache)
      | Inr v \<Rightarrow> (Inr v, cache(key \<mapsto> \<lparr>cached_value = v, fetched_at = now, ttl = t\<rparr>)))"
  by (simp add: cache_data_miss)

lemma cache_data_served_again:
  "cache key = None \<and> f key = Inr v \<and> now' < now + t \<longrightarrow>
   cache_data t f' now' key (snd (cache_data t f now key cache))
     = (Inr v, cache(key \<mapsto> \<lparr>cached_value = v, fetched_at = now, ttl = t\<rparr>))"
  by (simp add: cache_data_miss) (simp add: cache_data_def)

lemma cache_data_fetched_again:
  "cache key = None \<and> f key = Inr v \<and> now + t < now' \<longrightarrow>
   fst (cache_data t f' now' key (snd (cache_data t f now key cache))) = f' key"
  by (simp add: cache_data_miss)
    (simp add: cache_data_def fetch_and_store_def split: sum.splits)

text \<open>
  Claim C3, as stated, fails: a generation forecast fetch whose provider call times out at
  time 0 stores the empty frame with a time to live of 900 seconds, and at time 100 the
  stored failure is still returned, although the provider now answers.
\<close>

theorem failed_fetch_ttl_counterexample:
  "get_generation_forecast client_forecast_down 0 (may01, may02) Map.empty
     = (Inr (empty_frame, Some timeout),
        [(may01, may02) \<mapsto>
           \<lparr>cached_value = (empty_frame, Some timeout), fetched_at = 0, ttl = 900\<rparr>])
   \<and> fst (get_generation_forecast client_ok 100 (may01, may02)
            (snd (get_generation_forecast client_forecast_down 0 (may01, may02) Map.empty)))
     = Inr (empty_frame, Some timeout)"
proof -
  have a: "get_generation_forecast client_forecast_down 0 (may01, may02) Map.empty
     = (Inr (empty_frame, Some timeout),
        [(may01, may02) \<mapsto>
           \<lparr>cached_value = (empty_frame, Some timeout), fetched_at = 0, ttl = 900\<rparr>])"
    by (simp add: get_generation_forecast_def cache_data_miss get_generation_forecast_body_def
        client_forecast_down_def)
  have "fst (get_generation_forecast client_ok 100 (may01, may02)
            [(may01, may02) \<mapsto>
               \<lparr>cached_value = (empty_frame, Some timeout), fetched_at = 0, ttl = 900\<rparr>])
     = Inr (empty_frame, Some timeout)"
    by (simp add: get_generation_forecast_def cache_data_def)
  then show ?thesis
    by (simp add: a)
qed

text \<open>
  Claim C3, amended. The generation, load, generation forecast and load forecast fetches are
  wrapped by the memoisation with one time to live, 900 seconds. On a miss the function body
  runs and what it returns is stored under the call's key with the time of the call and time
  to live 900: the provider's answer and, for a forecast fetch, likewise the empty frame
  returned after a provider failure it has caught; a generation or load fetch that raises
  stores nothing. An entry less than 900 seconds old is returned as it is, whatever the
  provider would answer now; an entry more than 900 seconds old is fetched again. Every
  entry a call adds or replaces has time to live 900; there is no shorter time to live for
  failures.
\<close>

theorem stored_ttl_is_900:
  "(c3 (s, e) = None \<longrightarrow>
       (\<exists>v. get_generation_forecast client now (s, e) c3
           = (Inr v, c3((s, e) \<mapsto> \<lparr>cached_value = v, fetched_at = now, ttl = 900\<rparr>))
         \<and> (\<forall>err. query_generation_forecast client (start_time s) (end_time e) = Inl err
               \<longrightarrow> v = (empty_frame, Some err))
         \<and> (\<forall>df. query_generation_forecast client (start_time s) (end_time e) = Inr df
               \<longrightarrow> v = (df, None))))
   \<and> (c3 key = Some e3 \<and> now < fetched_at e3 + ttl e3 \<longrightarrow>
       get_generation_forecast client now key c3 = (Inr (cached_value e3), c3))
   \<and> (c4 (s, e) = None \<longrightarrow>
       (\<exists>v. get_consumption_forecast client now (s, e) c4
           = (Inr v, c4((s, e) \<mapsto> \<lparr>cached_value = v, fetched_at = now, ttl = 900\<rparr>))
         \<and> (\<forall>err. query_load_forecast client (start_time s) (end_time e) = Inl err
               \<longrightarrow> v = (empty_frame, Some err))
         \<and> (\<forall>df. query_load_forecast client (start_time s) (end_time e) = Inr df
               \<longrightarrow> v = (df, None))))
   \<and> (c4 key = Some e4 \<and> now < fetched_at e4 + ttl e4 \<longrightarrow>
       get_consumption_forecast client now key c4 = (Inr (cached_value e4), c4))
   \<and> (c1 key = None \<longrightarrow>
       get_generation_data client now key c1 =
         (case get_generation_data_body client key of
            Inl err \<Rightarrow> (Inl err, c1)
          | Inr v \<Rightarrow> (Inr v, c1(key \<mapsto> \<lparr>cached_value = v, fetched_at = now, ttl = 900\<rparr>))))
   \<and> (c1 key = Some e1 \<and> now < fetched_at e1 + ttl e1 \<longrightarrow>
       get_generation_data client now key c1 = (Inr (cached_value e1), c1))
   \<and> (c1 key = Some e1 \<and> fetched_at e1 + ttl e1 < now \<longrightarrow>
       get_generation_data client now key c1 =
         (case get_generation_data_body client key of
            Inl err \<Rightarrow> (Inl err, c1)
          | Inr v \<Rightarrow> (Inr v, c1(key \<mapsto> \<lparr>cached_value = v, fetched_at = now, ttl = 900\<rparr>))))
   \<and> (c1 key = None \<and> get_generation_data_body client key = Inr v1 \<and> now' < now + 900 \<longrightarrow>
       get_generation_data client' now' key (snd (get_generation_data client now key c1))
         = (Inr v1, c1(key \<mapsto> \<lparr>cached_value = v1, fetched_at = now, ttl = 900\<rparr>)))
   \<and> (c1 key = None \<and> get_generation_data_body client key = Inr v1 \<and> now + 900 < now' \<longrightarrow>
       fst (get_generation_data client' now' key (snd (get_generation_data client now key c1)))
         = get_generation_data_body client' key)
   \<and> (c2 key = None \<longrightarrow>
       get_consumption_data client now key c2 =
         (case get_consumption_data_body client key of
            Inl err \<Rightarrow> (Inl err, c2)
          | Inr v \<Rightarrow> (Inr v, c2(key \<mapsto> \<lparr>cached_value = v, fetched_at = now, ttl = 900\<rparr>))))
   \<and> (c2 key = Some e2 \<and> now < fetched_at e2 + ttl e2 \<longrightarrow>
       get_consumption_data client now key c2 = (Inr (cached_value e2), c2))
   \<and> (c2 key = Some e2 \<and> fetched_at e2 + ttl e2 < now \<longrightarrow>
       get_consumption_data client now key c2 =
         (case get_consumption_data_body client key of
            Inl err \<Rightarrow> (Inl err, c2)
          | Inr v \<Rightarrow> (Inr v, c2(key \<mapsto> \<lparr>cached_value = v, fetched_at = now, ttl = 900\<rparr>))))
   \<and> (c2 key = None \<and> get_consumption_data_body client key = Inr v2 \<and> now' < now + 900 \<longrightarrow>
       get_consumption_data client' now' key (snd (get_consumption_data client now key c2))
         = (Inr v2, c2(key \<mapsto> \<lparr>cached_value = v2, fetched_at = now, ttl = 900\<rparr>)))
   \<and> (c2 key = None \<and> get_consumption_data_body client key = Inr v2 \<and> now + 900 < now' \<longrightarrow>
       fst (get_consumption_data client' now' key (snd (get_consumption_data client now key c2)))
         = get_consumption_data_body client' key)
   \<and> (c3 key = Some e3 \<and> fetched_at e3 + ttl e3 < now \<longrightarrow>
       get_generation_forecast client now key c3 =
         (case get_generation_forecast_body client key of
            Inl err \<Rightarrow> (Inl err, c3)
          | Inr v \<Rightarrow> (Inr v, c3(key \<mapsto> \<lparr>cached_value = v, fetched_at = now, ttl = 900\<rparr>))))
   \<and> (c4 key = Some e4 \<and> fetched_at e4 + ttl e4 < now \<longrightarrow>
       get_consumption_forecast client now key c4 =
         (case get_consumption_forecast_body client key of
            Inl err \<Rightarrow> (Inl err, c4)
          | Inr v \<Rightarrow> (Inr v, c4(key \<mapsto> \<lparr>cached_value = v, fetched_at = now, ttl = 900\<rparr>))))
   \<and> (snd (get_generation_data client now key c1) k = Some n1 \<and> c1 k \<noteq> Some n1 \<longrightarrow>
       k = key \<and> ttl n1 = 900 \<and> fetched_at n1 = now)
   \<and> (snd (get_consumption_data client now key c2) k = Some n2 \<and> c2 k \<noteq> Some n2 \<longrightarrow>
       k = key \<and> ttl n2 = 900 \<and> fetched_at n2 = now)
   \<and> (snd (get_generation_forecast client now key c3) k = Some n3 \<and> c3 k \<noteq> Some n3 \<longrightarrow>
       k = key \<and> ttl n3 = 900 \<and> fetched_at n3 = now)
   \<and> (snd (get_consumption_forecast client now key c4) k = Some n4 \<and> c4 k \<noteq> Some n4 \<longrightarrow>
       k = key \<and> ttl n4 = 900 \<and> fetched_at n4 = now)
   \<and> (fst (get_generation_data client now key c1) = Inl err1 \<longrightarrow>
       snd (get_generation_data client now key c1) = c1)
   \<and> (fst (get_consumption_data client now key c2) = Inl err2 \<longrightarrow>
       snd (get_consumption_data client now key c2) = c2)"
proof -
  have m1: "c3 (s, e) = None \<longrightarrow>
       (\<exists>v. get_generation_forecast client now (s, e) c3
           = (Inr v, c3((s, e) \<mapsto> \<lparr>cached_value = v, fetched_at = now, ttl = 900\<rparr>))
         \<and> (\<forall>err. query_generation_forecast client (start_time s) (end_time e) = Inl err
               \<longrightarrow> v = (empty_frame, Some err))
         \<and> (\<forall>df. query_generation_forecast client (start_time s) (end_time e) = Inr df
               \<longrightarrow> v = (df, None)))"
  proof
    assume h: "c3 (s, e) = None"
    show "\<exists>v. get_generation_forecast client now (s, e) c3
           = (Inr v, c3((s, e) \<mapsto> \<lparr>cached_value = v, fetched_at = now, ttl = 900\<rparr>))
         \<and> (\<forall>err. query_generation_forecast client (start_time s) (end_time e) = Inl err
               \<longrightarrow> v = (empty_frame, Some err))
         \<and> (\<forall>df. query_generation_forecast client (start_time s) (end_time e) = Inr df
               \<longrightarrow> v = (df, None))"
      by (rule forecast_miss [of c3 s e client now, OF h])
  qed
  have m2: "c4 (s, e) = None \<longrightarrow>
       (\<exists>v. get_consumption_forecast client now (s, e) c4
           = (Inr v, c4((s, e) \<mapsto> \<lparr>cached_value = v, fetched_at = now, ttl = 900\<rparr>))
         \<and> (\<forall>err. query_load_forecast client (start_time s) (end_time e) = Inl err
               \<longrightarrow> v = (empty_frame, Some err))
         \<and> (\<forall>df. query_load_forecast client (start_time s) (end_time e) = Inr df
               \<longrightarrow> v = (df, None)))"
  proof
    assume h: "c4 (s, e) = None"
    show "\<exists>v. get_consumption_forecast client now (s, e) c4
           = (Inr v, c4((s, e) \<mapsto> \<lparr>cached_value = v, fetched_at = now, ttl = 900\<rparr>))
         \<and> (\<forall>err. query_load_forecast client (start_time s) (end_time e) = Inl err
               \<longrightarrow> v = (empty_frame, Some err))
         \<and> (\<forall>df. query_load_forecast client (start_time s) (end_time e) = Inr df
               \<longrightarrow> v = (df, None))"
      by (rule load_forecast_miss [of c4 s e client now, OF h])
  qed
  note defs = get_generation_data_def get_consumption_data_def get_generation_forecast_def
    get_consumption_forecast_def
  show ?thesis
    unfolding defs
    by (intro conjI cache_data_hit cache_data_expired cache_data_miss_imp
        cache_data_served_again cache_data_fetched_again cache_data_new_entry
        cache_data_raises m1 [unfolded defs] m2 [unfolded defs])
qed

text \<open>
  A forecast fetch whose provider call times out at time 0, the same call at time 100 with
  a provider that answers, a load fetch that succeeds at time 0 and is repeated at time 100
  with a provider that is down, and a generation fetch that raises.
\<close>

theorem stored_ttl_is_900_witness:
  "(Map.empty :: (date \<times> date, dataframe \<times> py_error option) cache) (may01, may02) = None
   \<and> query_generation_forecast client_forecast_down (start_time may01) (end_time may02)
       = Inl timeout
   \<and> get_generation_forecast client_forecast_down 0 (may01, may02) Map.empty
       = (Inr (empty_frame, Some timeout),
          [(may01, may02) \<mapsto>
             \<lparr>cached_value = (empty_frame, Some timeout), fetched_at = 0, ttl = 900\<rparr>])
   \<and> get_generation_forecast client_ok 100 (may01, may02)
         [(may01, may02) \<mapsto>
             \<lparr>cached_value = (empty_frame, Some timeout), fetched_at = 0, ttl = 900\<rparr>]
       = (Inr (empty_frame, Some timeout),
          [(may01, may02) \<mapsto>
             \<lparr>cached_value = (empty_frame, Some timeout), fetched_at = 0, ttl = 900\<rparr>])
   \<and> get_consumption_data client_load_down 100 (may01, may02)
         (snd (get_consumption_data client_ok 0 (may01, may02) Map.empty))
       = (Inr sample_series,
          [(may01, may02) \<mapsto> \<lparr>cached_value = sample_series, fetched_at = 0, ttl = 900\<rparr>])
   \<and> fst (get_consumption_data client_load_down 1000 (may01, may02)
         (snd (get_consumption_data client_ok 0 (may01, may02) Map.empty)))
       = Inl timeout
   \<and> fst (get_generation_data client_generation_down 0 (may01, may02) Map.empty) = Inl timeout
   \<and> snd (get_generation_data client_generation_down 0 (may01, may02) Map.empty) = Map.empty"
proof -
  have g: "fst (get_generation_data client_generation_down 0 (may01, may02) Map.empty)
      = Inl timeout"
    by (simp add: get_generation_data_def cache_data_miss get_generation_data_body_def
        client_generation_down_def)
  have q: "query_generation_forecast client_forecast_down (start_time may01) (end_time may02)
       = Inl timeout"
    by (simp add: client_forecast_down_def)
  have b: "get_consumption_data_body client_ok (may01, may02) = Inr sample_series"
    "get_consumption_data_body client_load_down (may01, may02) = Inl timeout"
    by (simp_all add: get_consumption_data_body_def client_ok_def client_load_down_def)
  note t1 = stored_ttl_is_900 [where ?c3.0 = Map.empty and s = may01 and e = may02
      and client = client_forecast_down and now = 0]
  note t2 = stored_ttl_is_900 [where ?c3.0 = "[(may01, may02) \<mapsto>
             \<lparr>cached_value = (empty_frame, Some timeout), fetched_at = 0, ttl = 900\<rparr>]"
      and key = "(may01, may02)" and client = client_ok and now = 100
      and ?e3.0 = "\<lparr>cached_value = (empty_frame, Some timeout), fetched_at = 0, ttl = 900\<rparr>"]
  note t3 = stored_ttl_is_900 [where ?c2.0 = Map.empty and key = "(may01, may02)"
      and client = client_ok and client' = client_load_down and now = 0 and now' = 100
      and ?v2.0 = sample_series]
  note t4 = stored_ttl_is_900 [where ?c2.0 = Map.empty and key = "(may01, may02)"
      and client = client_ok and client' = client_load_down and now = 0 and now' = 1000
      and ?v2.0 = sample_series]
  note t5 = stored_ttl_is_900 [where ?c1.0 = Map.empty and key = "(may01, may02)"
      and client = client_generation_down and now = 0 and ?err1.0 = timeout]
  have h1: "(Map.empty :: (date \<times> date, dataframe \<times> py_error option) cache) (may01, may02) = None"
    by simp
  from mp [OF conjunct1 [OF t1] h1]
  obtain v where v: "get_generation_forecast client_forecast_down 0 (may01, may02) Map.empty
           = (Inr v, [(may01, may02) \<mapsto> \<lparr>cached_value = v, fetched_at = 0, ttl = 900\<rparr>])"
    and f: "\<forall>err. query_generation_forecast client_forecast_down (start_time may01) (end_time may02)
              = Inl err \<longrightarrow> v = (empty_frame, Some err)"
    by blast
  from f q have w1: "v = (empty_frame, Some timeout)"
    by blast
  have h2: "[(may01, may02) \<mapsto>
             \<lparr>cached_value = (empty_frame, Some timeout), fetched_at = 0, ttl = 900\<rparr>]
            (may01, may02)
          = Some \<lparr>cached_value = (empty_frame, Some timeout), fetched_at = 0, ttl = 900\<rparr>
        \<and> (100 :: nat) < fetched_at \<lparr>cached_value = (empty_frame, Some timeout),
                fetched_at = 0, ttl = 900 :: nat\<rparr>
              + ttl \<lparr>cached_value = (empty_frame, Some timeout), fetched_at = 0 :: nat, ttl = 900\<rparr>"
    by simp
  have w2: "get_generation_forecast client_ok 100 (may01, may02)
         [(may01, may02) \<mapsto>
             \<lparr>cached_value = (empty_frame, Some timeout), fetched_at = 0, ttl = 900\<rparr>]
       = (Inr (empty_frame, Some timeout),
          [(may01, may02) \<mapsto>
             \<lparr>cached_value = (empty_frame, Some timeout), fetched_at = 0, ttl = 900\<rparr>])"
    using mp [OF conjunct1 [OF conjunct2 [OF t2]] h2] by simp
  have h3: "(Map.empty :: (date \<times> date, dataframe) cache) (may01, may02) = None
      \<and> get_consumption_data_body client_ok (may01, may02) = Inr sample_series
      \<and> (100 :: nat) < 0 + 900"
    using b by simp
  have w3: "get_consumption_data client_load_down 100 (may01, may02)
         (snd (get_consumption_data client_ok 0 (may01, may02) Map.empty))
       = (Inr sample_series,
          [(may01, may02) \<mapsto> \<lparr>cached_value = sample_series, fetched_at = 0, ttl = 900\<rparr>])"
    by (rule mp [OF conjunct1 [OF conjunct2 [OF conjunct2 [OF conjunct2 [OF conjunct2 [OF conjunct2 [OF conjunct2 [OF conjunct2 [OF conjunct2 [OF conjunct2 [OF conjunct2 [OF conjunct2 [OF conjunct2 [OF t3]]]]]]]]]]]]] h3])
  have h4: "(Map.empty :: (date \<times> date, dataframe) cache) (may01, may02) = None
      \<and> get_consumption_data_body client_ok (may01, may02) = Inr sample_series
      \<and> (0 :: nat) + 900 < 1000"
    using b by simp
  have w4: "fst (get_consumption_data client_load_down 1000 (may01, may02)
         (snd (get_consumption_data client_ok 0 (may01, may02) Map.empty))) = Inl timeout"
    using mp [OF conjunct1 [OF conjunct2 [OF conjunct2 [OF conjunct2 [OF conjunct2 [OF conjunct2 [OF conjunct2 [OF conjunct2 [OF conjunct2 [OF conjunct2 [OF conjunct2 [OF conjunct2 [OF conjunct2 [OF conjunct2 [OF t4]]]]]]]]]]]]]] h4] b(2) by simp
  have w5: "snd (get_generation_data client_generation_down 0 (may01, may02) Map.empty) = Map.empty"
    by (rule mp [OF conjunct1 [OF conjunct2 [OF conjunct2 [OF conjunct2 [OF conjunct2 [OF conjunct2 [OF conjunct2 [OF conjunct2 [OF conjunct2 [OF conjunct2 [OF conjunct2 [OF conjunct2 [OF conjunct2 [OF conjunct2 [OF conjunct2 [OF conjunct2 [OF conjunct2 [OF conjunct2 [OF conjunct2 [OF conjunct2 [OF conjunct2 [OF t5]]]]]]]]]]]]]]]]]]]]] g])
  show ?thesis
    using v w1 q w2 w3 w4 g w5 by simp
qed

end
